theory Spec2Isabelle
  imports Complex_Main
begin

section \<open>Text layout: \<open>breakLongString\<close>\<close>

text \<open>
  The sealing pipeline of the repository exists in three copies: \<open>sealDocument\<close>
  (packages/lib/server-only/document/seal-document.ts), the job handler \<open>run\<close>
  (packages/lib/jobs/definitions/internal/seal-document.handler.ts) and a second version of
  the job handler (src/unnamed/part_000). \<open>sealDocument\<close> and the second handler carry the
  same nested helper \<open>breakLongString\<close>; the first handler has no wrapping at all.

  JavaScript strings are modelled as \<open>string\<close> (lists of characters; the source iterates
  a word with \<open>for (const char of word)\<close>). Numbers are modelled as \<open>real\<close>: the layout
  code only compares the widths the font reports and adds, subtracts and multiplies page
  coordinates; rounding of IEEE doubles is not modelled.
\<close>

text \<open>\<open>String.prototype.split\<close> with a one-character separator: never empty, and an
  empty input gives one empty piece.\<close>

fun js_split :: "'a \<Rightarrow> 'a list \<Rightarrow> 'a list list" where
  "js_split sep [] = [[]]"
| "js_split sep (c # cs) =
     (if c = sep then [] # js_split sep cs
      else (c # hd (js_split sep cs)) # tl (js_split sep cs))"

text \<open>\<open>Array.prototype.join\<close> with a one-character separator.\<close>

fun js_join :: "'a \<Rightarrow> 'a list list \<Rightarrow> 'a list" where
  "js_join sep [] = []"
| "js_join sep [l] = l"
| "js_join sep (l # m # ls) = l @ sep # js_join sep (m # ls)"

definition newline :: char where
  "newline = CHR 0x0A"

definition space :: char where
  "space = CHR '' ''"

text \<open>The innermost loop of \<open>breakLongString\<close> (\<open>for (const char of word)\<close>): \<open>lines\<close> is
  the array being filled, \<open>charLine\<close> the run of characters collected so far.\<close>

fun breakChars ::
  "(string \<Rightarrow> real) \<Rightarrow> real \<Rightarrow> string \<Rightarrow> string list \<Rightarrow> string \<Rightarrow> string list \<times> string" where
  "breakChars widthOf maxWidth [] lines charLine = (lines, charLine)"
| "breakChars widthOf maxWidth (char # rest) lines charLine =
     (let nextCharLine = charLine @ [char] in
      if widthOf nextCharLine \<le> maxWidth
      then breakChars widthOf maxWidth rest lines nextCharLine
      else breakChars widthOf maxWidth rest (lines @ [charLine]) [char])"

text \<open>The loop over the words of one paragraph (\<open>for (const word of words)\<close>).\<close>

fun breakWords ::
  "(string \<Rightarrow> real) \<Rightarrow> real \<Rightarrow> string list \<Rightarrow> string list \<Rightarrow> string \<Rightarrow> string list \<times> string" where
  "breakWords widthOf maxWidth [] lines currentLine = (lines, currentLine)"
| "breakWords widthOf maxWidth (word # rest) lines currentLine =
     (let lineWithWord =
            (if length currentLine = 0 then word else currentLine @ [space] @ word) in
      if widthOf lineWithWord \<le> maxWidth
      then breakWords widthOf maxWidth rest lines lineWithWord
      else
        let lines1 = (if length currentLine > 0 then lines @ [currentLine] else lines) in
        if widthOf word \<le> maxWidth
        then breakWords widthOf maxWidth rest lines1 word
        else
          (case breakChars widthOf maxWidth word lines1 [] of
             (lines2, charLine) \<Rightarrow> breakWords widthOf maxWidth rest lines2 charLine))"

text \<open>The loop over the paragraphs (\<open>for (const paragraph of text.split(newline))\<close>).\<close>

fun breakParagraphs ::
  "(string \<Rightarrow> real) \<Rightarrow> real \<Rightarrow> string list \<Rightarrow> string list \<Rightarrow> string list" where
  "breakParagraphs widthOf maxWidth [] lines = lines"
| "breakParagraphs widthOf maxWidth (paragraph # rest) lines =
     (if paragraph = [] \<or> widthOf paragraph \<le> maxWidth
      then breakParagraphs widthOf maxWidth rest (lines @ [paragraph])
      else
        (case breakWords widthOf maxWidth (js_split space paragraph) lines [] of
           (lines1, currentLine) \<Rightarrow>
             breakParagraphs widthOf maxWidth rest
               (if length currentLine > 0 then lines1 @ [currentLine] else lines1)))"

text \<open>\<open>breakLongString(text, maxWidth, font, fontSize)\<close>; the font is represented by its
  method \<open>widthOfTextAtSize\<close>.\<close>

definition breakLongString :: "string \<Rightarrow> real \<Rightarrow> (string \<Rightarrow> real \<Rightarrow> real) \<Rightarrow> real \<Rightarrow> string" where
  "breakLongString text maxWidth font fontSize =
     (if text = [] then []
      else js_join newline
             (breakParagraphs (\<lambda>s. font s fontSize) maxWidth (js_split newline text) []))"

text \<open>The shape the corrected width property allows a line to have.\<close>

definition line_fits :: "(string \<Rightarrow> real) \<Rightarrow> real \<Rightarrow> string \<Rightarrow> bool" where
  "line_fits widthOf maxWidth line =
     (widthOf line \<le> maxWidth \<or> (length line = 1 \<and> maxWidth < widthOf line) \<or> line = [])"

section \<open>Data model\<close>

text \<open>
  Modelled from the spec: the enumerations of the ORM schema, whose declarations are not
  among the source files. The code names \<open>SigningStatus.SIGNED\<close>,
  \<open>SigningStatus.REJECTED\<close>, \<open>RecipientRole.CC\<close>, \<open>DocumentStatus.COMPLETED\<close>,
  \<open>DocumentStatus.REJECTED\<close>, \<open>FieldType.SIGNATURE\<close>, \<open>FieldType.FREE_SIGNATURE\<close> and the
  two webhook events; the other members follow section 3 of the specification.
\<close>

datatype SigningStatus = SigningStatus_PENDING | SigningStatus_SIGNED | SigningStatus_REJECTED

datatype RecipientRole = RecipientRole_SIGNER | RecipientRole_APPROVER | RecipientRole_CC

datatype DocumentStatus =
  DocumentStatus_DRAFT | DocumentStatus_PENDING | DocumentStatus_COMPLETED | DocumentStatus_REJECTED

datatype FieldType =
  FieldType_SIGNATURE | FieldType_FREE_SIGNATURE | FieldType_TEXT | FieldType_DATE | FieldType_CHECKBOX

datatype WebhookTriggerEvents =
  WebhookTriggerEvents_DOCUMENT_COMPLETED | WebhookTriggerEvents_DOCUMENT_REJECTED

datatype DOCUMENT_AUDIT_LOG_TYPE = DOCUMENT_COMPLETED

type_synonym bytes = string

text \<open>The rows the pipeline reads and writes, with the columns it touches.\<close>

record Recipient =
  recipient_documentId :: nat
  role :: RecipientRole
  signingStatus :: SigningStatus
  recipient_rejectionReason :: "string option"

record Field =
  field_documentId :: nat
  field_type :: FieldType
  page :: int
  positionX :: real
  positionY :: real
  width :: real
  height :: real
  inserted :: bool
  customText :: string

record DocumentData =
  documentData_id :: nat
  data :: string
  initialData :: string

text \<open>\<open>includeSigningCertificate\<close> stands for
  \<open>document.team?.teamGlobalSettings?.includeSigningCertificate\<close> (\<open>None\<close> when a link of the
  chain is missing).\<close>

record Document =
  document_id :: nat
  title :: string
  status :: DocumentStatus
  completedAt :: "nat option"
  documentDataId :: nat
  qrToken :: "string option"
  useLegacyFieldInsertion :: bool
  includeSigningCertificate :: "bool option"

text \<open>The audit-log row built by \<open>createDocumentAuditLogData\<close>: its type, its document and
  the \<open>data\<close> object \<open>{ transactionId, ...(isRejected ? { isRejected: true, rejectionReason }
  : {}) }\<close>, whose two optional keys are \<open>None\<close> when absent.\<close>

record AuditLog =
  auditLog_type :: DOCUMENT_AUDIT_LOG_TYPE
  auditLog_documentId :: nat
  data_transactionId :: string
  data_isRejected :: "bool option"
  data_rejectionReason :: "string option"

text \<open>A loaded PDF: the geometry of its pages and, in order, the operations the pipeline
  applied to it. \<open>DrawText i text x y size\<close> is \<open>page.drawText(text, {x, y, size, font})\<close> on
  the page of index \<open>i\<close>.\<close>

record PDFPage =
  getWidth :: real
  getHeight :: real

datatype PdfOp =
    NormalizeSignatureAppearances
  | FlattenForm
  | FlattenAnnotations
  | AddRejectionStampToPdf string
  | EmbedFont
  | DrawText nat string real real real
  | InsertFieldInPDF Field
  | Legacy_insertFieldInPDF Field

record PDFDocument =
  getPages :: "PDFPage list"
  ops :: "PdfOp list"

text \<open>What a run does outside the database, in order. \<open>PostHogCapture\<close> carries the
  \<open>distinctId\<close> and the properties \<open>documentId\<close> and \<open>isRejected\<close>.\<close>

datatype Effect =
    GetFileServerSide DocumentData
  | PutPdfFileServerSide string bytes
  | PostHogCapture string nat bool
  | SendCompletedEmail nat
  | TriggerWebhook WebhookTriggerEvents Document

text \<open>Every \<open>throw\<close> of the source is an \<open>error\<close>; an exception raised by an external
  collaborator is \<open>CollaboratorError\<close> of that collaborator.\<close>

datatype collaborator =
  Storage | PdfLib | Signer | Database | Mailer | Webhooks

datatype error =
    NotFoundError
  | DocumentIsNotComplete
  | HasNoDocumentData nat
  | HasUnsignedRecipients nat
  | HasUnsignedRequiredFields nat
  | CollaboratorError collaborator

text \<open>The writes of the pipeline to the database, each of which can throw.\<close>

datatype DatabaseWrite = Document_update | DocumentData_update | DocumentAuditLog_create

text \<open>The durable results of the job's named sub-tasks (\<open>io.runTask\<close>), one slot per task
  name of the handler: 'get-document-status', 'get-document-data-id',
  'decorate-and-sign-pdf', 'update-document', 'send-completed-email'.\<close>

record TaskCache =
  get_document_status :: "DocumentStatus option"
  get_document_data_id :: "nat option"
  decorate_and_sign_pdf :: "nat option"
  update_document :: "unit option"
  send_completed_email :: "unit option"

text \<open>The state a run reads and changes: the tables, the effects emitted so far, the
  job's task cache and the number of ids the generator \<open>nanoid\<close> has returned.\<close>

record World =
  db_document :: "Document list"
  db_recipient :: "Recipient list"
  db_field :: "Field list"
  db_documentData :: "DocumentData list"
  db_documentAuditLog :: "AuditLog list"
  effects :: "Effect list"
  tasks :: TaskCache
  nanoidCalls :: nat

text \<open>
  The external collaborators, as parameters. A collaborator that can throw returns an
  option (or a flag): \<open>None\<close> (\<open>False\<close>) is the exception. \<open>fieldsContainUnsignedRequiredField\<close>
  and \<open>isDocumentCompleted\<close> are helpers of the repository that are not among the source
  files; they are left arbitrary. \<open>getCertificatePdf\<close> returns \<open>None\<close> when the renderer
  throws, which the source catches and turns into \<open>null\<close>. \<open>writeSucceeds\<close> tells which writes
  to the database go through and \<open>transactionCommits\<close> whether a commit does. \<open>nanoid n\<close> is
  the id that the call number \<open>n\<close> of \<open>nanoid()\<close> returns; \<open>prefixedId\<close> and \<open>new_Date\<close> are the
  values the other id generator and the clock return in this run.
\<close>

record Env =
  fieldsContainUnsignedRequiredField :: "Field list \<Rightarrow> bool"
  isDocumentCompleted :: "DocumentStatus \<Rightarrow> bool"
  getFileServerSide :: "DocumentData \<Rightarrow> bytes option"
  PDFDocument_load :: "bytes \<Rightarrow> PDFDocument option"
  widthOfTextAtSize :: "string \<Rightarrow> real \<Rightarrow> real"
  getCertificatePdf :: "nat \<Rightarrow> bytes option"
  save :: "PDFDocument \<Rightarrow> bytes"
  signPdf :: "bytes \<Rightarrow> bytes option"
  putPdfFileServerSide :: "string \<Rightarrow> bytes \<Rightarrow> string option"
  path_parse_name :: "string \<Rightarrow> string"
  PostHogServerClient :: bool
  writeSucceeds :: "DatabaseWrite \<Rightarrow> bool"
  transactionCommits :: bool
  sendCompletedEmail :: "nat \<Rightarrow> bool"
  triggerWebhook :: "WebhookTriggerEvents \<Rightarrow> Document \<Rightarrow> bool"
  nanoid :: "nat \<Rightarrow> string"
  prefixedId :: "string \<Rightarrow> string"
  new_Date :: nat

text \<open>\<open>SealDocumentOptions\<close> and the job payload: \<open>sendEmail\<close> and \<open>isResealing\<close> are
  optional and default to \<open>true\<close> and \<open>false\<close>.\<close>

record SealDocumentOptions =
  opt_documentId :: nat
  opt_sendEmail :: "bool option"
  opt_isResealing :: "bool option"

section \<open>Field renderer\<close>

text \<open>Coordinates and widths are real numbers: every sum, difference, product and quotient
  is exact here, where the code rounds it to the nearest IEEE double. A position can
  therefore differ from the one the code computes by the rounding, and a comparison (the
  width of a line against \<open>maxWidth\<close>, \<open>currentY\<close> against the bottom of the field) can come
  out the other way when its two sides are within a rounding error of each other. The
  examples of this development are at inputs where every comparison is decided by a
  margin.\<close>

text \<open>\<open>Array.prototype.at\<close>: a negative index counts from the end; the result is
  \<open>undefined\<close> (\<open>None\<close>) outside the array. The index that was resolved is returned with
  the element.\<close>

definition js_at :: "'a list \<Rightarrow> int \<Rightarrow> (nat \<times> 'a) option" where
  "js_at xs i =
     (let k = (if 0 \<le> i then i else int (length xs) + i) in
      if k < 0 \<or> int (length xs) \<le> k then None else Some (nat k, xs ! nat k))"

definition addOp :: "PdfOp \<Rightarrow> PDFDocument \<Rightarrow> PDFDocument" where
  "addOp op doc = doc\<lparr>ops := ops doc @ [op]\<rparr>"

text \<open>The loop \<open>for (const line of lines)\<close> of \<open>sealDocument\<close> and of the second handler:
  \<open>bottom\<close> is \<open>invertedY + padding\<close>, and \<open>break\<close> ends the loop.\<close>

fun drawLines ::
  "PDFDocument \<Rightarrow> nat \<Rightarrow> real \<Rightarrow> real \<Rightarrow> real \<Rightarrow> real \<Rightarrow> string list \<Rightarrow> real \<Rightarrow> PDFDocument" where
  "drawLines doc pageIndex x bottom fontSize lineHeight [] currentY = doc"
| "drawLines doc pageIndex x bottom fontSize lineHeight (line # rest) currentY =
     (if currentY < bottom then doc
      else drawLines (addOp (DrawText pageIndex line x currentY fontSize) doc)
             pageIndex x bottom fontSize lineHeight rest (currentY - lineHeight))"

text \<open>The body of the loop over the non-signature fields once the page is found, as
  \<open>sealDocument\<close> (lines 165 to 210) and the second handler (lines 198 to 243) have it.\<close>

definition drawWrappedText :: "Env \<Rightarrow> PDFDocument \<Rightarrow> nat \<Rightarrow> PDFPage \<Rightarrow> Field \<Rightarrow> PDFDocument" where
  "drawWrappedText env doc pageIndex pdfPage field =
     (let pageWidth = getWidth pdfPage;
          pageHeight = getHeight pdfPage;
          fieldWidth = pageWidth * (width field / 100);
          fieldHeight = pageHeight * (height field / 100);
          fieldX = pageWidth * (positionX field / 100);
          fieldY = pageHeight * (positionY field / 100);
          invertedY = pageHeight - fieldY - fieldHeight;
          fontSize = 8;
          doc1 = addOp EmbedFont doc;
          padding = 4
      in if customText field = [] then doc1
         else
           let availableWidth = fieldWidth - (padding * 2);
               wrappedText = breakLongString (customText field) availableWidth
                               (widthOfTextAtSize env) fontSize;
               lines = js_split newline wrappedText;
               lineHeight = fontSize * 1.2;
               currentY = invertedY + fieldHeight - padding - fontSize
           in drawLines doc1 pageIndex (fieldX + padding) (invertedY + padding) fontSize
                lineHeight lines currentY)"

text \<open>One iteration of \<open>for (const field of nonSignatureFields)\<close> in \<open>sealDocument\<close>
  (seal-document.ts, lines 157 to 211).\<close>

definition sealDocument_drawField :: "Env \<Rightarrow> PDFDocument \<Rightarrow> Field \<Rightarrow> PDFDocument" where
  "sealDocument_drawField env doc field =
     (case js_at (getPages doc) (page field - 1) of
        None \<Rightarrow> doc
      | Some (pageIndex, pdfPage) \<Rightarrow> drawWrappedText env doc pageIndex pdfPage field)"

text \<open>The same iteration in the second handler (part_000, lines 186 to 244).\<close>

definition part_000_drawField :: "Env \<Rightarrow> PDFDocument \<Rightarrow> Field \<Rightarrow> PDFDocument" where
  "part_000_drawField env doc field =
     (if inserted field then
        (case js_at (getPages doc) (page field - 1) of
           None \<Rightarrow> doc
         | Some (pageIndex, pdfPage) \<Rightarrow> drawWrappedText env doc pageIndex pdfPage field)
      else doc)"

text \<open>The same iteration in the job handler (seal-document.handler.ts, lines 186 to
  222).\<close>

definition handler_drawField :: "Env \<Rightarrow> PDFDocument \<Rightarrow> Field \<Rightarrow> PDFDocument" where
  "handler_drawField env doc field =
     (if inserted field then
        (case js_at (getPages doc) (page field - 1) of
           None \<Rightarrow> doc
         | Some (pageIndex, pdfPage) \<Rightarrow>
             let pageWidth = getWidth pdfPage;
                 pageHeight = getHeight pdfPage;
                 fieldWidth = pageWidth * (width field / 100);
                 fieldHeight = pageHeight * (height field / 100);
                 fieldX = pageWidth * (positionX field / 100);
                 fieldY = pageHeight * (positionY field / 100);
                 invertedY = pageHeight - fieldY - fieldHeight;
                 fontSize = 8;
                 doc1 = addOp EmbedFont doc
             in if customText field = [] then doc1
                else addOp (DrawText pageIndex (customText field) (fieldX + 2)
                              (invertedY + fieldHeight / 2 - fontSize / 2) fontSize) doc1)
      else doc)"

definition isSignatureField :: "Field \<Rightarrow> bool" where
  "isSignatureField field =
     (field_type field = FieldType_SIGNATURE \<or> field_type field = FieldType_FREE_SIGNATURE)"

definition isNonSignatureField :: "Field \<Rightarrow> bool" where
  "isNonSignatureField field =
     (field_type field \<noteq> FieldType_SIGNATURE \<and> field_type field \<noteq> FieldType_FREE_SIGNATURE)"

text \<open>The two insertion strategies are external; their call is recorded.\<close>

definition insertSignatureField :: "Document \<Rightarrow> PDFDocument \<Rightarrow> Field \<Rightarrow> PDFDocument" where
  "insertSignatureField document doc field =
     (if useLegacyFieldInsertion document then addOp (Legacy_insertFieldInPDF field) doc
      else addOp (InsertFieldInPDF field) doc)"

text \<open>\<open>sealDocument\<close> inserts every signature field; both handlers only the inserted
  ones.\<close>

definition sealDocument_insertField :: "Document \<Rightarrow> PDFDocument \<Rightarrow> Field \<Rightarrow> PDFDocument" where
  "sealDocument_insertField document doc field = insertSignatureField document doc field"

definition run_insertField :: "Document \<Rightarrow> PDFDocument \<Rightarrow> Field \<Rightarrow> PDFDocument" where
  "run_insertField document doc field =
     (if inserted field then insertSignatureField document doc field else doc)"

text \<open>\<open>if (certificateData) { ... doc.addPage(page) ... }\<close>: loading the certificate can
  throw.\<close>

definition addCertificate :: "Env \<Rightarrow> bytes option \<Rightarrow> PDFDocument \<Rightarrow> error + PDFDocument" where
  "addCertificate env certificateData doc =
     (case certificateData of
        None \<Rightarrow> Inr doc
      | Some certificateBytes \<Rightarrow>
          (case PDFDocument_load env certificateBytes of
             None \<Rightarrow> Inl (CollaboratorError PdfLib)
           | Some certificate \<Rightarrow> Inr (doc\<lparr>getPages := getPages doc @ getPages certificate\<rparr>)))"

text \<open>Everything between \<open>PDFDocument.load\<close> and \<open>save\<close>: normalisation, the rejection
  stamp, the non-signature fields, the certificate and the signature fields, and the second
  flattening. The three copies differ only in \<open>drawField\<close> and \<open>insertField\<close>.\<close>

definition decoratePdf ::
  "(PDFDocument \<Rightarrow> Field \<Rightarrow> PDFDocument) \<Rightarrow> (PDFDocument \<Rightarrow> Field \<Rightarrow> PDFDocument) \<Rightarrow>
   Env \<Rightarrow> Field list \<Rightarrow> bool \<Rightarrow> string \<Rightarrow> bytes option \<Rightarrow> PDFDocument \<Rightarrow> error + PDFDocument" where
  "decoratePdf drawField insertField env allFields isRejected rejectionReason certificateData doc =
     (let signatureFields = filter isSignatureField allFields;
          nonSignatureFields = filter isNonSignatureField allFields;
          hasSignatureField = (length signatureFields > 0);
          doc1 = addOp FlattenAnnotations
                   (addOp FlattenForm (addOp NormalizeSignatureAppearances doc));
          doc2 = (if isRejected \<and> rejectionReason \<noteq> []
                  then addOp (AddRejectionStampToPdf rejectionReason) doc1 else doc1);
          doc3 = foldl drawField doc2 nonSignatureFields
      in if hasSignatureField then
           (case addCertificate env certificateData doc3 of
              Inl e \<Rightarrow> Inl e
            | Inr doc4 \<Rightarrow> Inr (addOp FlattenForm (foldl insertField doc4 signatureFields)))
         else Inr (addOp FlattenForm doc3))"

section \<open>Orchestration\<close>

text \<open>A step takes the world and returns a result or an error with the world it leaves;
  \<open>andThen\<close> is \<open>await\<close> followed by the rest of the function: an error ends the run.\<close>

definition andThen ::
  "(error + 'a) \<times> World \<Rightarrow> ('a \<Rightarrow> World \<Rightarrow> (error + 'b) \<times> World) \<Rightarrow> (error + 'b) \<times> World" where
  "andThen r f = (case r of (Inl e, w) \<Rightarrow> (Inl e, w) | (Inr x, w) \<Rightarrow> f x w)"

definition emit :: "Effect \<Rightarrow> World \<Rightarrow> World" where
  "emit effect w = w\<lparr>effects := effects w @ [effect]\<rparr>"

text \<open>
  Modelled from the spec: the data-access layer (section 6), which is not among the source
  files. \<open>findFirstOrThrow\<close> throws when no row matches; \<open>update\<close> by id and \<open>create\<close> throw when
  the database refuses the write (\<open>writeSucceeds\<close>), and \<open>update\<close> also when no row has the id.
  A read that finds its rows is taken not to throw.
\<close>

definition findFirstOrThrow :: "('a \<Rightarrow> bool) \<Rightarrow> 'a list \<Rightarrow> World \<Rightarrow> (error + 'a) \<times> World" where
  "findFirstOrThrow p rows w =
     (case find p rows of None \<Rightarrow> (Inl NotFoundError, w) | Some row \<Rightarrow> (Inr row, w))"

definition document_update ::
  "Env \<Rightarrow> nat \<Rightarrow> (Document \<Rightarrow> Document) \<Rightarrow> World \<Rightarrow> (error + unit) \<times> World" where
  "document_update env rowId f w =
     (if \<not> writeSucceeds env Document_update then (Inl (CollaboratorError Database), w)
      else if list_ex (\<lambda>d. document_id d = rowId) (db_document w)
      then (Inr (), w\<lparr>db_document :=
                        map (\<lambda>d. if document_id d = rowId then f d else d) (db_document w)\<rparr>)
      else (Inl NotFoundError, w))"

definition documentData_update ::
  "Env \<Rightarrow> nat \<Rightarrow> (DocumentData \<Rightarrow> DocumentData) \<Rightarrow> World \<Rightarrow> (error + unit) \<times> World" where
  "documentData_update env rowId f w =
     (if \<not> writeSucceeds env DocumentData_update then (Inl (CollaboratorError Database), w)
      else if list_ex (\<lambda>d. documentData_id d = rowId) (db_documentData w)
      then (Inr (), w\<lparr>db_documentData :=
                        map (\<lambda>d. if documentData_id d = rowId then f d else d) (db_documentData w)\<rparr>)
      else (Inl NotFoundError, w))"

definition documentAuditLog_create :: "Env \<Rightarrow> AuditLog \<Rightarrow> World \<Rightarrow> (error + unit) \<times> World" where
  "documentAuditLog_create env row w =
     (if \<not> writeSucceeds env DocumentAuditLog_create then (Inl (CollaboratorError Database), w)
      else (Inr (), w\<lparr>db_documentAuditLog := db_documentAuditLog w @ [row]\<rparr>))"

text \<open>A call of \<open>nanoid()\<close>: the generator returns its next id.\<close>

definition generateId :: "Env \<Rightarrow> World \<Rightarrow> string \<times> World" where
  "generateId env w = (nanoid env (nanoidCalls w), w\<lparr>nanoidCalls := Suc (nanoidCalls w)\<rparr>)"

text \<open>
  Modelled from the spec: the transactional multi-write capability of the data-access
  layer (\<open>prisma.$transaction\<close>, sections 4.6 and 6), which is not among the source files.
  The writes of the callback are kept when the callback returns and the database commits
  (\<open>transactionCommits\<close>); when the callback throws or the commit fails, the tables are rolled
  back to what they were before the transaction. What is not in the database (the effects,
  the task cache, the id generator) stays as the callback left it.
\<close>

definition rollback :: "World \<Rightarrow> World \<Rightarrow> World" where
  "rollback w tx =
     w\<lparr>effects := effects tx, tasks := tasks tx, nanoidCalls := nanoidCalls tx\<rparr>"

definition transaction ::
  "Env \<Rightarrow> (World \<Rightarrow> (error + 'a) \<times> World) \<Rightarrow> World \<Rightarrow> (error + 'a) \<times> World" where
  "transaction env body w =
     (case body w of
        (Inl e, tx) \<Rightarrow> (Inl e, rollback w tx)
      | (Inr x, tx) \<Rightarrow>
          if transactionCommits env then (Inr x, tx)
          else (Inl (CollaboratorError Database), rollback w tx))"

text \<open>
  Modelled from the spec: the job runner's checkpointed sub-task \<open>io.runTask(name, fn)\<close>
  (sections 5 and 9), which is not among the source files. A task whose result is cached is
  skipped and the cached result returned; otherwise \<open>fn\<close> runs and its result is cached.
  \<open>cached\<close> and \<open>store\<close> read and write the slot of the task's name.
\<close>

definition runTask ::
  "(TaskCache \<Rightarrow> 'a option) \<Rightarrow> ('a option \<Rightarrow> TaskCache \<Rightarrow> TaskCache) \<Rightarrow>
   (World \<Rightarrow> (error + 'a) \<times> World) \<Rightarrow> World \<Rightarrow> (error + 'a) \<times> World" where
  "runTask cached store fn w =
     (case cached (tasks w) of
        Some result \<Rightarrow> (Inr result, w)
      | None \<Rightarrow>
          (case fn w of
             (Inl e, w1) \<Rightarrow> (Inl e, w1)
           | (Inr result, w1) \<Rightarrow> (Inr result, w1\<lparr>tasks := store (Some result) (tasks w1)\<rparr>)))"

definition freshId :: "DocumentData list \<Rightarrow> nat" where
  "freshId rows = Suc (fold max (map documentData_id rows) 0)"

definition getFile :: "Env \<Rightarrow> DocumentData \<Rightarrow> World \<Rightarrow> (error + bytes) \<times> World" where
  "getFile env documentData w =
     (case getFileServerSide env documentData of
        None \<Rightarrow> (Inl (CollaboratorError Storage), emit (GetFileServerSide documentData) w)
      | Some pdfData \<Rightarrow> (Inr pdfData, emit (GetFileServerSide documentData) w))"

text \<open>
  Modelled from the spec: \<open>putPdfFileServerSide\<close>, which is not among the source files
  (section 6: \<open>putBytes({name, mimeType, bytes}) -> {id, ref}\<close>; section 4.6: the bytes are
  stored as a new DocumentData blob outside the transaction). The storage returns the
  reference; the new row gets an id no row has.
\<close>

definition putPdfFile :: "Env \<Rightarrow> string \<Rightarrow> bytes \<Rightarrow> World \<Rightarrow> (error + DocumentData) \<times> World" where
  "putPdfFile env name pdfBuffer w =
     (case putPdfFileServerSide env name pdfBuffer of
        None \<Rightarrow> (Inl (CollaboratorError Storage), w)
      | Some ref \<Rightarrow>
          let documentData =
                \<lparr>documentData_id = freshId (db_documentData w), data = ref, initialData = ref\<rparr>
          in (Inr documentData,
              emit (PutPdfFileServerSide name pdfBuffer)
                (w\<lparr>db_documentData := db_documentData w @ [documentData]\<rparr>)))"

definition loadPdf :: "Env \<Rightarrow> bytes \<Rightarrow> World \<Rightarrow> (error + PDFDocument) \<times> World" where
  "loadPdf env pdfData w =
     (case PDFDocument_load env pdfData of
        None \<Rightarrow> (Inl (CollaboratorError PdfLib), w)
      | Some doc \<Rightarrow> (Inr doc, w))"

text \<open>\<open>doc.save()\<close> followed by \<open>signPdf\<close>.\<close>

definition sign :: "Env \<Rightarrow> PDFDocument \<Rightarrow> World \<Rightarrow> (error + bytes) \<times> World" where
  "sign env doc w =
     (case signPdf env (save env doc) of
        None \<Rightarrow> (Inl (CollaboratorError Signer), w)
      | Some pdfBuffer \<Rightarrow> (Inr pdfBuffer, w))"

definition capture :: "Env \<Rightarrow> nat \<Rightarrow> bool \<Rightarrow> World \<Rightarrow> World" where
  "capture env rowId isRejected w =
     (if PostHogServerClient env
      then (case generateId env w of
              (distinctId, w1) \<Rightarrow> emit (PostHogCapture distinctId rowId isRejected) w1)
      else w)"

definition sendCompletedEmailStep :: "Env \<Rightarrow> nat \<Rightarrow> World \<Rightarrow> (error + unit) \<times> World" where
  "sendCompletedEmailStep env rowId w =
     (if sendCompletedEmail env rowId then (Inr (), emit (SendCompletedEmail rowId) w)
      else (Inl (CollaboratorError Mailer), w))"

definition triggerWebhookStep ::
  "Env \<Rightarrow> WebhookTriggerEvents \<Rightarrow> Document \<Rightarrow> World \<Rightarrow> (error + unit) \<times> World" where
  "triggerWebhookStep env event updatedDocument w =
     (if triggerWebhook env event updatedDocument
      then (Inr (), emit (TriggerWebhook event updatedDocument) w)
      else (Inl (CollaboratorError Webhooks), w))"

text \<open>\<open>prisma.recipient.findMany({ where: { documentId, role: { not: CC } } })\<close>, the
  relation \<open>document.recipients\<close> and \<open>prisma.field.findMany({ where: { documentId } })\<close>.\<close>

definition nonCCRecipients :: "nat \<Rightarrow> World \<Rightarrow> Recipient list" where
  "nonCCRecipients rowId w =
     filter (\<lambda>recipient. recipient_documentId recipient = rowId \<and> role recipient \<noteq> RecipientRole_CC)
       (db_recipient w)"

definition documentRecipients :: "nat \<Rightarrow> World \<Rightarrow> Recipient list" where
  "documentRecipients rowId w =
     filter (\<lambda>recipient. recipient_documentId recipient = rowId) (db_recipient w)"

definition documentFields :: "nat \<Rightarrow> World \<Rightarrow> Field list" where
  "documentFields rowId w = filter (\<lambda>field. field_documentId field = rowId) (db_field w)"

text \<open>\<open>recipients.find((recipient) => recipient.signingStatus === SigningStatus.REJECTED)\<close>
  and \<open>rejectedRecipient?.rejectionReason ?? ''\<close>.\<close>

definition findRejectedRecipient :: "Recipient list \<Rightarrow> Recipient option" where
  "findRejectedRecipient recipients =
     find (\<lambda>recipient. signingStatus recipient = SigningStatus_REJECTED) recipients"

definition rejectionReasonOf :: "Recipient option \<Rightarrow> string" where
  "rejectionReasonOf rejectedRecipient =
     (case rejectedRecipient of
        None \<Rightarrow> []
      | Some recipient \<Rightarrow>
          (case recipient_rejectionReason recipient of None \<Rightarrow> [] | Some reason \<Rightarrow> reason))"

definition completedAuditLog :: "string \<Rightarrow> nat \<Rightarrow> bool \<Rightarrow> string \<Rightarrow> AuditLog" where
  "completedAuditLog transactionId rowId isRejected rejectionReason =
     \<lparr>auditLog_type = DOCUMENT_COMPLETED,
      auditLog_documentId = rowId,
      data_transactionId = transactionId,
      data_isRejected = (if isRejected then Some True else None),
      data_rejectionReason = (if isRejected then Some rejectionReason else None)\<rparr>"

definition sealedStatus :: "bool \<Rightarrow> DocumentStatus" where
  "sealedStatus isRejected =
     (if isRejected then DocumentStatus_REJECTED else DocumentStatus_COMPLETED)"

definition webhookEvent :: "bool \<Rightarrow> WebhookTriggerEvents" where
  "webhookEvent isRejected =
     (if isRejected then WebhookTriggerEvents_DOCUMENT_REJECTED
      else WebhookTriggerEvents_DOCUMENT_COMPLETED)"

text \<open>The condition of \<open>if (sendEmail && !isResealing)\<close> in \<open>sealDocument\<close> (line 369), and
  \<open>shouldSendCompletedEmail\<close> of the handlers (lines 324 to 328), where \<open>documentStatus\<close> is
  \<open>document.status\<close>.\<close>

definition sealDocument_shouldSendCompletedEmail :: "bool \<Rightarrow> bool \<Rightarrow> bool" where
  "sealDocument_shouldSendCompletedEmail sendEmail isResealing = (sendEmail \<and> \<not> isResealing)"

definition run_shouldSendCompletedEmail :: "Env \<Rightarrow> bool \<Rightarrow> bool \<Rightarrow> bool \<Rightarrow> DocumentStatus \<Rightarrow> bool" where
  "run_shouldSendCompletedEmail env sendEmail isResealing isRejected documentStatus =
     (let shouldSendCompletedEmail = (sendEmail \<and> \<not> isResealing \<and> \<not> isRejected) in
      if isResealing \<and> \<not> isDocumentCompleted env documentStatus then sendEmail
      else shouldSendCompletedEmail)"

text \<open>The local bindings the later parts of a run use: the document as loaded at the
  start, \<open>documentData\<close> (after \<open>documentData.data = documentData.initialData\<close> when
  resealing), \<open>isRejected\<close>, \<open>rejectionReason\<close> and \<open>fields\<close>.\<close>

record SealContext =
  ctx_document :: Document
  ctx_documentData :: DocumentData
  ctx_isRejected :: bool
  ctx_rejectionReason :: string
  ctx_fields :: "Field list"

text \<open>\<open>sealDocument\<close>, lines 49 to 120: the document, its data, the recipients that are
  not CC, the two precondition checks and the rebinding for a reseal.\<close>

definition sealDocument_load ::
  "Env \<Rightarrow> nat \<Rightarrow> bool \<Rightarrow> World \<Rightarrow> (error + SealContext) \<times> World" where
  "sealDocument_load env documentId isResealing w0 =
     andThen (findFirstOrThrow (\<lambda>d. document_id d = documentId) (db_document w0) w0) (\<lambda>document w.
     case find (\<lambda>d. documentData_id d = documentDataId document) (db_documentData w) of
       None \<Rightarrow> (Inl (HasNoDocumentData (document_id document)), w)
     | Some documentData \<Rightarrow>
     let recipients = nonCCRecipients (document_id document) w;
         rejectedRecipient = findRejectedRecipient recipients;
         isRejected = (rejectedRecipient \<noteq> None);
         rejectionReason = rejectionReasonOf rejectedRecipient
     in
     if \<not> isRejected \<and>
        list_ex (\<lambda>recipient. signingStatus recipient \<noteq> SigningStatus_SIGNED) recipients
     then (Inl (HasUnsignedRecipients (document_id document)), w)
     else
     let allFields = documentFields (document_id document) w in
     if \<not> isRejected \<and> fieldsContainUnsignedRequiredField env allFields
     then (Inl (HasUnsignedRequiredFields (document_id document)), w)
     else
     (Inr \<lparr>ctx_document = document,
           ctx_documentData =
             (if isResealing then documentData\<lparr>data := initialData documentData\<rparr>
              else documentData),
           ctx_isRejected = isRejected,
           ctx_rejectionReason = rejectionReason,
           ctx_fields = allFields\<rparr>, w))"

text \<open>\<open>certificateData\<close> (lines 134 to 142 of \<open>sealDocument\<close>, 162 to 170 of the
  handlers).\<close>

definition certificateDataOf :: "Env \<Rightarrow> nat \<Rightarrow> SealContext \<Rightarrow> bytes option" where
  "certificateDataOf env documentId ctx =
     (let hasSignatureField = (length (filter isSignatureField (ctx_fields ctx)) > 0) in
      if hasSignatureField \<and>
         (case includeSigningCertificate (ctx_document ctx) of None \<Rightarrow> True | Some b \<Rightarrow> b)
      then getCertificatePdf env documentId else None)"

text \<open>From \<open>PDFDocument.load\<close> to \<open>putPdfFileServerSide\<close> (lines 144 to 320 of
  \<open>sealDocument\<close>; the body of the task 'decorate-and-sign-pdf' of the handlers).\<close>

definition decorateAndSign ::
  "(PDFDocument \<Rightarrow> Field \<Rightarrow> PDFDocument) \<Rightarrow> (PDFDocument \<Rightarrow> Field \<Rightarrow> PDFDocument) \<Rightarrow>
   Env \<Rightarrow> SealContext \<Rightarrow> bytes option \<Rightarrow> bytes \<Rightarrow> World \<Rightarrow> (error + DocumentData) \<times> World" where
  "decorateAndSign drawField insertField env ctx certificateData pdfData w0 =
     andThen (loadPdf env pdfData w0) (\<lambda>doc w.
     case decoratePdf drawField insertField env (ctx_fields ctx) (ctx_isRejected ctx)
            (ctx_rejectionReason ctx) certificateData doc of
       Inl e \<Rightarrow> (Inl e, w)
     | Inr decorated \<Rightarrow>
     andThen (sign env decorated w) (\<lambda>pdfBuffer w.
     let name = path_parse_name env (title (ctx_document ctx));
         suffix = (if ctx_isRejected ctx then ''_rejected.pdf'' else ''_signed.pdf'')
     in putPdfFile env (name @ suffix) pdfBuffer w))"

text \<open>The transaction of \<open>sealDocument\<close> (lines 335 to 367): its callback, which makes
  the three writes in turn, and the call of \<open>prisma.$transaction\<close> with it.\<close>

definition sealDocument_writes ::
  "Env \<Rightarrow> SealContext \<Rightarrow> string \<Rightarrow> World \<Rightarrow> (error + unit) \<times> World" where
  "sealDocument_writes env ctx newData tx0 =
       andThen (document_update env (document_id (ctx_document ctx))
                  (\<lambda>d. d\<lparr>status := sealedStatus (ctx_isRejected ctx),
                          completedAt := Some (new_Date env)\<rparr>) tx0)
         (\<lambda>_ tx.
       andThen (documentData_update env (documentData_id (ctx_documentData ctx))
                  (\<lambda>d. d\<lparr>data := newData\<rparr>) tx)
         (\<lambda>_ tx.
       case generateId env tx of
         (transactionId, tx) \<Rightarrow>
           documentAuditLog_create env
             (completedAuditLog transactionId (document_id (ctx_document ctx)) (ctx_isRejected ctx)
                (ctx_rejectionReason ctx)) tx))"

definition sealDocument_transaction ::
  "Env \<Rightarrow> SealContext \<Rightarrow> string \<Rightarrow> World \<Rightarrow> (error + unit) \<times> World" where
  "sealDocument_transaction env ctx newData =
     transaction env (sealDocument_writes env ctx newData)"

text \<open>The end of both functions: the document is read again and the webhook is
  triggered.\<close>

definition reloadAndTriggerWebhook :: "Env \<Rightarrow> SealContext \<Rightarrow> World \<Rightarrow> (error + unit) \<times> World" where
  "reloadAndTriggerWebhook env ctx w0 =
     andThen (findFirstOrThrow (\<lambda>d. document_id d = document_id (ctx_document ctx))
                (db_document w0) w0) (\<lambda>updatedDocument w.
     triggerWebhookStep env (webhookEvent (ctx_isRejected ctx)) updatedDocument w)"

text \<open>\<open>sealDocument\<close> (seal-document.ts, lines 43 to 392).\<close>

definition sealDocument :: "Env \<Rightarrow> SealDocumentOptions \<Rightarrow> World \<Rightarrow> (error + unit) \<times> World" where
  "sealDocument env options w0 =
     (let documentId = opt_documentId options;
          sendEmail = (case opt_sendEmail options of None \<Rightarrow> True | Some b \<Rightarrow> b);
          isResealing = (case opt_isResealing options of None \<Rightarrow> False | Some b \<Rightarrow> b)
      in
      andThen (sealDocument_load env documentId isResealing w0) (\<lambda>ctx w.
      andThen (getFile env (ctx_documentData ctx) w) (\<lambda>pdfData w.
      andThen (decorateAndSign (sealDocument_drawField env)
                 (sealDocument_insertField (ctx_document ctx)) env ctx
                 (certificateDataOf env documentId ctx) pdfData w) (\<lambda>newDocumentData w.
      andThen (sealDocument_transaction env ctx (data newDocumentData)
                 (capture env (document_id (ctx_document ctx)) (ctx_isRejected ctx) w)) (\<lambda>_ w.
      andThen (if sealDocument_shouldSendCompletedEmail sendEmail isResealing
               then sendCompletedEmailStep env documentId w
               else (Inr (), w)) (\<lambda>_ w.
      reloadAndTriggerWebhook env ctx w))))))"

text \<open>The handlers, lines 49 to 76: the document and the completion check over
  \<open>document.recipients\<close>.\<close>

definition run_load :: "nat \<Rightarrow> World \<Rightarrow> (error + Document) \<times> World" where
  "run_load documentId w0 =
     andThen (findFirstOrThrow (\<lambda>d. document_id d = documentId) (db_document w0) w0) (\<lambda>document w.
     let document_recipients = documentRecipients (document_id document) w;
         isComplete =
           (list_ex (\<lambda>recipient. signingStatus recipient = SigningStatus_REJECTED)
              document_recipients
            \<or> list_all (\<lambda>recipient. signingStatus recipient = SigningStatus_SIGNED)
                 document_recipients)
     in if \<not> isComplete then (Inl DocumentIsNotComplete, w) else (Inr document, w))"

text \<open>The handlers, lines 91 to 149: the document data, the rejection, the check of the
  fields, the rebinding for a reseal and the QR token.\<close>

definition run_prepare ::
  "Env \<Rightarrow> bool \<Rightarrow> Document \<Rightarrow> nat \<Rightarrow> World \<Rightarrow> (error + SealContext) \<times> World" where
  "run_prepare env isResealing document documentDataId' w =
     (case find (\<lambda>d. documentData_id d = documentDataId') (db_documentData w) of
        None \<Rightarrow> (Inl (HasNoDocumentData (document_id document)), w)
      | Some documentData \<Rightarrow>
      let recipients = nonCCRecipients (document_id document) w;
          rejectedRecipient = findRejectedRecipient recipients;
          isRejected = (rejectedRecipient \<noteq> None);
          rejectionReason = rejectionReasonOf rejectedRecipient;
          allFields = documentFields (document_id document) w
      in
      if \<not> isRejected \<and> fieldsContainUnsignedRequiredField env allFields
      then (Inl (HasUnsignedRequiredFields (document_id document)), w)
      else
      andThen (if qrToken document = None \<or> qrToken document = Some []
               then document_update env (document_id document)
                      (\<lambda>d. d\<lparr>qrToken := Some (prefixedId env ''qr'')\<rparr>) w
               else (Inr (), w)) (\<lambda>_ w.
      (Inr \<lparr>ctx_document = document,
            ctx_documentData =
              (if isResealing then documentData\<lparr>data := initialData documentData\<rparr>
               else documentData),
            ctx_isRejected = isRejected,
            ctx_rejectionReason = rejectionReason,
            ctx_fields = allFields\<rparr>, w)))"

text \<open>The transaction of the handlers (lines 281 to 321 and 377 to 417): its callback and
  the call of \<open>prisma.$transaction\<close> with it.\<close>

definition run_writes ::
  "Env \<Rightarrow> SealContext \<Rightarrow> nat \<Rightarrow> World \<Rightarrow> (error + unit) \<times> World" where
  "run_writes env ctx newDataId tx0 =
       andThen (findFirstOrThrow (\<lambda>d. documentData_id d = newDataId) (db_documentData tx0) tx0)
         (\<lambda>newData tx.
       andThen (document_update env (document_id (ctx_document ctx))
                  (\<lambda>d. d\<lparr>status := sealedStatus (ctx_isRejected ctx),
                          completedAt := Some (new_Date env)\<rparr>) tx)
         (\<lambda>_ tx.
       andThen (documentData_update env (documentData_id (ctx_documentData ctx))
                  (\<lambda>d. d\<lparr>data := data newData\<rparr>) tx)
         (\<lambda>_ tx.
       case generateId env tx of
         (transactionId, tx) \<Rightarrow>
           documentAuditLog_create env
             (completedAuditLog transactionId (document_id (ctx_document ctx)) (ctx_isRejected ctx)
                (ctx_rejectionReason ctx)) tx)))"

definition run_transaction ::
  "Env \<Rightarrow> SealContext \<Rightarrow> nat \<Rightarrow> World \<Rightarrow> (error + unit) \<times> World" where
  "run_transaction env ctx newDataId = transaction env (run_writes env ctx newDataId)"

text \<open>The body of the task 'send-completed-email'.\<close>

definition run_sendCompletedEmail ::
  "Env \<Rightarrow> nat \<Rightarrow> bool \<Rightarrow> bool \<Rightarrow> SealContext \<Rightarrow> World \<Rightarrow> (error + unit) \<times> World" where
  "run_sendCompletedEmail env documentId sendEmail isResealing ctx w =
     (if run_shouldSendCompletedEmail env sendEmail isResealing (ctx_isRejected ctx)
           (status (ctx_document ctx))
      then sendCompletedEmailStep env documentId w
      else (Inr (), w))"

text \<open>The job handler \<open>run\<close>. Its two versions are the same text but for the loop over the
  non-signature fields, which is the parameter \<open>drawField\<close>. The result of the task
  'get-document-status' is bound to \<open>documentStatus\<close>, as in the source.\<close>

definition run_generic ::
  "(Env \<Rightarrow> PDFDocument \<Rightarrow> Field \<Rightarrow> PDFDocument) \<Rightarrow>
   Env \<Rightarrow> SealDocumentOptions \<Rightarrow> World \<Rightarrow> (error + unit) \<times> World" where
  "run_generic drawField env payload w0 =
     (let documentId = opt_documentId payload;
          sendEmail = (case opt_sendEmail payload of None \<Rightarrow> True | Some b \<Rightarrow> b);
          isResealing = (case opt_isResealing payload of None \<Rightarrow> False | Some b \<Rightarrow> b)
      in
      andThen (run_load documentId w0) (\<lambda>document w.
      andThen (runTask get_document_status (\<lambda>v c. c\<lparr>get_document_status := v\<rparr>)
                 (\<lambda>w. (Inr (status document), w)) w) (\<lambda>documentStatus w.
      andThen (runTask get_document_data_id (\<lambda>v c. c\<lparr>get_document_data_id := v\<rparr>)
                 (\<lambda>w. (Inr (documentDataId document), w)) w) (\<lambda>documentDataId w.
      andThen (run_prepare env isResealing document documentDataId w) (\<lambda>ctx w.
      andThen (getFile env (ctx_documentData ctx) w) (\<lambda>pdfData w.
      andThen (runTask decorate_and_sign_pdf (\<lambda>v c. c\<lparr>decorate_and_sign_pdf := v\<rparr>)
                 (\<lambda>w. andThen (decorateAndSign (drawField env) (run_insertField document) env
                                  ctx (certificateDataOf env documentId ctx) pdfData w)
                         (\<lambda>newDocumentData w. (Inr (documentData_id newDocumentData), w))) w)
        (\<lambda>newDataId w.
      andThen (runTask update_document (\<lambda>v c. c\<lparr>update_document := v\<rparr>)
                 (run_transaction env ctx newDataId)
                 (capture env (document_id document) (ctx_isRejected ctx) w)) (\<lambda>_ w.
      andThen (runTask send_completed_email (\<lambda>v c. c\<lparr>send_completed_email := v\<rparr>)
                 (run_sendCompletedEmail env documentId sendEmail isResealing ctx) w) (\<lambda>_ w.
      reloadAndTriggerWebhook env ctx w)))))))))"

text \<open>\<open>run\<close> of seal-document.handler.ts and \<open>run\<close> of part_000.\<close>

definition run :: "Env \<Rightarrow> SealDocumentOptions \<Rightarrow> World \<Rightarrow> (error + unit) \<times> World" where
  "run = run_generic handler_drawField"

definition run_part_000 :: "Env \<Rightarrow> SealDocumentOptions \<Rightarrow> World \<Rightarrow> (error + unit) \<times> World" where
  "run_part_000 = run_generic part_000_drawField"

text \<open>What the persistence claims are about: the status and completion time of every
  document, the audit log, and the DocumentData rows. A run leaves them \<open>untouched\<close> when
  the first two are as before and the rows that existed are unchanged. A seal is
  \<open>persisted\<close> when the document of the run has the sealed status and the completion time,
  the other documents are as before, the audit log has one more entry, whose transaction
  id is the one the generator returned last, in this run, and the rows that existed are as
  before but for the data reference of the document's row, which is the one of the row
  that was added.\<close>

definition sealState :: "Document \<Rightarrow> nat \<times> DocumentStatus \<times> nat option" where
  "sealState d = (document_id d, status d, completedAt d)"

definition untouched :: "World \<Rightarrow> World \<Rightarrow> bool" where
  "untouched w w' =
     (map sealState (db_document w') = map sealState (db_document w)
      \<and> db_documentAuditLog w' = db_documentAuditLog w
      \<and> take (length (db_documentData w)) (db_documentData w') = db_documentData w)"

definition persisted :: "Env \<Rightarrow> nat \<Rightarrow> World \<Rightarrow> World \<Rightarrow> bool" where
  "persisted env rowId w w' =
     (case find (\<lambda>d. document_id d = rowId) (db_document w) of
        None \<Rightarrow> False
      | Some document \<Rightarrow>
          let rejectedRecipient = findRejectedRecipient (nonCCRecipients rowId w);
              isRejected = (rejectedRecipient \<noteq> None);
              rejectionReason = rejectionReasonOf rejectedRecipient;
              newData = data (last (db_documentData w'));
              transactionId = nanoid env (nanoidCalls w' - 1)
          in nanoidCalls w < nanoidCalls w'
             \<and> map sealState (db_document w')
               = map (\<lambda>d. if document_id d = rowId
                           then (rowId, sealedStatus isRejected, Some (new_Date env))
                           else sealState d) (db_document w)
             \<and> db_documentAuditLog w'
               = db_documentAuditLog w
                   @ [completedAuditLog transactionId rowId isRejected rejectionReason]
             \<and> length (db_documentData w') = Suc (length (db_documentData w))
             \<and> butlast (db_documentData w')
               = map (\<lambda>d. if documentData_id d = documentDataId document
                           then d\<lparr>data := newData\<rparr> else d)
                   (db_documentData w))"

text \<open>What a run read from and wrote to the blob storage, in order.\<close>

fun loadedFile :: "Effect \<Rightarrow> DocumentData list" where
  "loadedFile (GetFileServerSide documentData) = [documentData]"
| "loadedFile effect = []"

fun storedFile :: "Effect \<Rightarrow> (string \<times> bytes) list" where
  "storedFile (PutPdfFileServerSide name pdfBuffer) = [(name, pdfBuffer)]"
| "storedFile effect = []"

definition loadedFiles :: "World \<Rightarrow> DocumentData list" where
  "loadedFiles w = concat (map loadedFile (effects w))"

definition storedFiles :: "World \<Rightarrow> (string \<times> bytes) list" where
  "storedFiles w = concat (map storedFile (effects w))"

text \<open>The bindings a run has when its precondition checks pass, and the file it stores
  when no collaborator throws: the signed rendering of the bytes that \<open>getFileServerSide\<close>
  returns for \<open>documentData\<close>.\<close>

definition sealContext :: "nat \<Rightarrow> bool \<Rightarrow> World \<Rightarrow> Document \<Rightarrow> DocumentData \<Rightarrow> SealContext" where
  "sealContext documentId isResealing w document documentData =
     \<lparr>ctx_document = document,
      ctx_documentData =
        (if isResealing then documentData\<lparr>data := initialData documentData\<rparr> else documentData),
      ctx_isRejected = (findRejectedRecipient (nonCCRecipients documentId w) \<noteq> None),
      ctx_rejectionReason = rejectionReasonOf (findRejectedRecipient (nonCCRecipients documentId w)),
      ctx_fields = documentFields documentId w\<rparr>"

definition renderedDocument ::
  "(PDFDocument \<Rightarrow> Field \<Rightarrow> PDFDocument) \<Rightarrow> (PDFDocument \<Rightarrow> Field \<Rightarrow> PDFDocument) \<Rightarrow>
   Env \<Rightarrow> nat \<Rightarrow> SealContext \<Rightarrow> PDFDocument option" where
  "renderedDocument drawField insertField env documentId ctx =
     (case getFileServerSide env (ctx_documentData ctx) of
        None \<Rightarrow> None
      | Some pdfData \<Rightarrow>
     (case PDFDocument_load env pdfData of
        None \<Rightarrow> None
      | Some doc \<Rightarrow>
     (case decoratePdf drawField insertField env (ctx_fields ctx) (ctx_isRejected ctx)
             (ctx_rejectionReason ctx) (certificateDataOf env documentId ctx) doc of
        Inl e \<Rightarrow> None
      | Inr decorated \<Rightarrow> Some decorated)))"

definition renderedPdf ::
  "(PDFDocument \<Rightarrow> Field \<Rightarrow> PDFDocument) \<Rightarrow> (PDFDocument \<Rightarrow> Field \<Rightarrow> PDFDocument) \<Rightarrow>
   Env \<Rightarrow> nat \<Rightarrow> SealContext \<Rightarrow> (string \<times> bytes) option" where
  "renderedPdf drawField insertField env documentId ctx =
     (case renderedDocument drawField insertField env documentId ctx of
        None \<Rightarrow> None
      | Some decorated \<Rightarrow>
     (case signPdf env (save env decorated) of
        None \<Rightarrow> None
      | Some pdfBuffer \<Rightarrow>
          Some (path_parse_name env (title (ctx_document ctx))
                  @ (if ctx_isRejected ctx then ''_rejected.pdf'' else ''_signed.pdf''),
                pdfBuffer)))"

text \<open>The database takes the three writes of the transaction and commits it.\<close>

definition databaseAccepts :: "Env \<Rightarrow> bool" where
  "databaseAccepts env =
     (writeSucceeds env Document_update \<and> writeSucceeds env DocumentData_update
      \<and> writeSucceeds env DocumentAuditLog_create \<and> transactionCommits env)"

text \<open>No collaborator throws on the way to the commit: the file is read, rendered and
  signed, the storage takes it, and the database takes the writes and commits.\<close>

definition collaboratorsSucceed ::
  "(PDFDocument \<Rightarrow> Field \<Rightarrow> PDFDocument) \<Rightarrow> (PDFDocument \<Rightarrow> Field \<Rightarrow> PDFDocument) \<Rightarrow>
   Env \<Rightarrow> nat \<Rightarrow> SealContext \<Rightarrow> bool" where
  "collaboratorsSucceed drawField insertField env documentId ctx =
     (case renderedPdf drawField insertField env documentId ctx of
        None \<Rightarrow> False
      | Some file \<Rightarrow>
          putPdfFileServerSide env (fst file) (snd file) \<noteq> None \<and> databaseAccepts env)"

text \<open>A run that sealed: no collaborator threw before the commit, the seal is persisted,
  the generator was called once for the transaction id (and once before, for the
  \<open>distinctId\<close>, when the analytics client is there), the blob storage was read once, for
  \<open>documentData\<close>, and one file was stored, the signed rendering of that read, for which the
  storage returned the new data reference.\<close>

definition sealed ::
  "(PDFDocument \<Rightarrow> Field \<Rightarrow> PDFDocument) \<Rightarrow> (Document \<Rightarrow> PDFDocument \<Rightarrow> Field \<Rightarrow> PDFDocument) \<Rightarrow>
   Env \<Rightarrow> SealDocumentOptions \<Rightarrow> World \<Rightarrow> World \<Rightarrow> bool" where
  "sealed drawField insertField env options w w' =
     (case find (\<lambda>d. document_id d = opt_documentId options) (db_document w) of
        None \<Rightarrow> False
      | Some document \<Rightarrow>
     (case find (\<lambda>d. documentData_id d = documentDataId document) (db_documentData w) of
        None \<Rightarrow> False
      | Some documentData \<Rightarrow>
          let ctx = sealContext (opt_documentId options)
                      (case opt_isResealing options of None \<Rightarrow> False | Some b \<Rightarrow> b)
                      w document documentData
          in collaboratorsSucceed drawField (insertField document) env (opt_documentId options) ctx
             \<and> persisted env (opt_documentId options) w w'
             \<and> nanoidCalls w' = nanoidCalls w + (if PostHogServerClient env then 2 else 1)
             \<and> loadedFiles w' = loadedFiles w @ [ctx_documentData ctx]
             \<and> (case renderedPdf drawField (insertField document) env (opt_documentId options) ctx of
                   None \<Rightarrow> False
                 | Some file \<Rightarrow>
                     storedFiles w' = storedFiles w @ [file]
                     \<and> putPdfFileServerSide env (fst file) (snd file)
                         = Some (data (last (db_documentData w'))))))"

















text \<open>The world without the cached result of the task 'get-document-status', and the
  functions of the world whose outcome is the same, up to that slot, whatever the slot
  holds.\<close>

definition forgetStatus :: "World \<Rightarrow> World" where
  "forgetStatus w = w\<lparr>tasks := (tasks w)\<lparr>get_document_status := None\<rparr>\<rparr>"

definition insensitive :: "(World \<Rightarrow> (error + 'a) \<times> World) \<Rightarrow> bool" where
  "insensitive f = (\<forall>w. apsnd forgetStatus (f w) = apsnd forgetStatus (f (forgetStatus w)))"

section \<open>Concrete inputs\<close>

text \<open>A font whose every character is half the font size wide, a one-page document of
  600 by 800 units, collaborators that all succeed, and a pending document with one
  DocumentData row; the examples below are stated on them.\<close>

definition monospace :: "string \<Rightarrow> real \<Rightarrow> real" where
  "monospace s fontSize = real (length s) * fontSize / 2"

definition pdf0 :: PDFDocument where
  "pdf0 = \<lparr>getPages = [\<lparr>getWidth = 600, getHeight = 800\<rparr>], ops = []\<rparr>"

definition env0 :: Env where
  "env0 =
     \<lparr>fieldsContainUnsignedRequiredField = (\<lambda>fs. False),
      isDocumentCompleted =
        (\<lambda>s. s = DocumentStatus_COMPLETED \<or> s = DocumentStatus_REJECTED),
      getFileServerSide = (\<lambda>documentData. Some (data documentData)),
      PDFDocument_load = (\<lambda>pdfData. Some pdf0),
      widthOfTextAtSize = monospace,
      getCertificatePdf = (\<lambda>rowId. None),
      save = (\<lambda>doc. ''pdf''),
      signPdf = (\<lambda>pdf. Some (''signed '' @ pdf)),
      putPdfFileServerSide = (\<lambda>name pdf. Some (''blob '' @ name)),
      path_parse_name = (\<lambda>t. t),
      PostHogServerClient = False,
      writeSucceeds = (\<lambda>write. True),
      transactionCommits = True,
      sendCompletedEmail = (\<lambda>rowId. True),
      triggerWebhook = (\<lambda>event document. True),
      nanoid = (\<lambda>n. ''tx'' @ replicate n (CHR ''+'')),
      prefixedId = (\<lambda>prefix. prefix @ ''_1''),
      new_Date = 42\<rparr>"

definition emptyTasks :: TaskCache where
  "emptyTasks =
     \<lparr>get_document_status = None, get_document_data_id = None,
      decorate_and_sign_pdf = None, update_document = None, send_completed_email = None\<rparr>"

definition document0 :: Document where
  "document0 =
     \<lparr>document_id = 1, title = ''contract'', status = DocumentStatus_PENDING,
      completedAt = None, documentDataId = 7, qrToken = Some ''qr_0'',
      useLegacyFieldInsertion = False, includeSigningCertificate = None\<rparr>"

definition documentData0 :: DocumentData where
  "documentData0 = \<lparr>documentData_id = 7, data = ''current'', initialData = ''initial''\<rparr>"

definition world0 :: "Recipient list \<Rightarrow> Field list \<Rightarrow> World" where
  "world0 rs fs =
     \<lparr>db_document = [document0], db_recipient = rs, db_field = fs,
      db_documentData = [documentData0], db_documentAuditLog = [], effects = [],
      tasks = emptyTasks, nanoidCalls = 0\<rparr>"

definition recipient0 :: "RecipientRole \<Rightarrow> SigningStatus \<Rightarrow> string option \<Rightarrow> Recipient" where
  "recipient0 r s reason =
     \<lparr>recipient_documentId = 1, role = r, signingStatus = s, recipient_rejectionReason = reason\<rparr>"

definition textField0 :: "bool \<Rightarrow> int \<Rightarrow> string \<Rightarrow> Field" where
  "textField0 ins p t =
     \<lparr>field_documentId = 1, field_type = FieldType_TEXT, page = p, positionX = 10,
      positionY = 10, width = 5, height = 5, inserted = ins, customText = t\<rparr>"

definition options0 :: "bool option \<Rightarrow> bool option \<Rightarrow> SealDocumentOptions" where
  "options0 sendEmail isResealing =
     \<lparr>opt_documentId = 1, opt_sendEmail = sendEmail, opt_isResealing = isResealing\<rparr>"

text \<open>The same collaborators with a mailer that throws, and a document whose only
  recipient has signed.\<close>

definition envMailerDown :: Env where
  "envMailerDown = env0\<lparr>sendCompletedEmail := (\<lambda>rowId. False)\<rparr>"

text \<open>The same collaborators with a database that refuses the audit entry.\<close>

definition envAuditLogDown :: Env where
  "envAuditLogDown = env0\<lparr>writeSucceeds := (\<lambda>write. write \<noteq> DocumentAuditLog_create)\<rparr>"

definition signedWorld :: World where
  "signedWorld = world0 [recipient0 RecipientRole_SIGNER SigningStatus_SIGNED None] []"

text \<open>Documents with a pending CC recipient, with a rejection recorded on a CC recipient
  only, and with two rejections after a signature.\<close>

definition ccPendingWorld :: World where
  "ccPendingWorld =
     world0 [recipient0 RecipientRole_SIGNER SigningStatus_SIGNED None,
             recipient0 RecipientRole_SIGNER SigningStatus_SIGNED None,
             recipient0 RecipientRole_CC SigningStatus_PENDING None] []"

definition ccRejectedWorld :: World where
  "ccRejectedWorld =
     world0 [recipient0 RecipientRole_SIGNER SigningStatus_PENDING None,
             recipient0 RecipientRole_CC SigningStatus_REJECTED None] []"

definition rejectedWorld :: World where
  "rejectedWorld =
     world0 [recipient0 RecipientRole_SIGNER SigningStatus_SIGNED None,
             recipient0 RecipientRole_SIGNER SigningStatus_REJECTED (Some ''wrong amount''),
             recipient0 RecipientRole_SIGNER SigningStatus_REJECTED (Some ''too late'')] []"


section \<open>Properties of the text layout\<close>

subsection \<open>Splitting and joining\<close>

lemma js_split_not_Nil: "js_split sep xs \<noteq> []"
  by (induction xs) auto

lemma js_split_no_sep: "list_all (\<lambda>l. sep \<notin> set l) (js_split sep xs)"
proof (induction xs)
  case Nil
  then show ?case by simp
next
  case (Cons c cs)
  then show ?case
    using js_split_not_Nil [of sep cs]
    by (cases "js_split sep cs") auto
qed

lemma js_split_subset: "list_all (\<lambda>l. set l \<subseteq> set xs) (js_split sep xs)"
proof (induction xs)
  case Nil
  then show ?case by simp
next
  case (Cons c cs)
  then show ?case
    using js_split_not_Nil [of sep cs]
    by (cases "js_split sep cs") (auto simp: list_all_iff)
qed

lemma js_split_without_sep: "sep \<notin> set l \<Longrightarrow> js_split sep l = [l]"
  by (induction l) auto

lemma js_split_append_sep:
  "sep \<notin> set l \<Longrightarrow> js_split sep (l @ sep # r) = l # js_split sep r"
  by (induction l) auto

lemma js_split_join:
  "ls \<noteq> [] \<Longrightarrow> list_all (\<lambda>l. sep \<notin> set l) ls \<Longrightarrow> js_split sep (js_join sep ls) = ls"
proof (induction sep ls rule: js_join.induct)
  case (1 sep)
  then show ?case by simp
next
  case (2 sep l)
  then show ?case by (simp add: js_split_without_sep)
next
  case (3 sep l m ls)
  then show ?case by (simp add: js_split_append_sep)
qed

lemma newline_not_space: "newline \<noteq> space"
  by (simp add: newline_def space_def)

subsection \<open>Every line that is pushed has an admissible width\<close>

lemma line_fits_single: "line_fits widthOf maxWidth [c]"
  by (simp add: line_fits_def not_le [symmetric])

lemma line_fits_le: "widthOf l \<le> maxWidth \<Longrightarrow> line_fits widthOf maxWidth l"
  by (simp add: line_fits_def)

lemma line_fits_Nil: "line_fits widthOf maxWidth []"
  by (simp add: line_fits_def)

lemma breakChars_fits:
  "list_all (line_fits widthOf maxWidth) lines \<Longrightarrow> line_fits widthOf maxWidth charLine \<Longrightarrow>
   breakChars widthOf maxWidth word lines charLine = (lines', charLine') \<Longrightarrow>
   list_all (line_fits widthOf maxWidth) lines' \<and> line_fits widthOf maxWidth charLine'"
proof (induction word arbitrary: lines charLine)
  case Nil
  then show ?case by simp
next
  case (Cons char rest)
  show ?case
  proof (cases "widthOf (charLine @ [char]) \<le> maxWidth")
    case True
    with Cons.prems
    have "breakChars widthOf maxWidth rest lines (charLine @ [char]) = (lines', charLine')"
      by simp
    from Cons.IH [OF Cons.prems(1) line_fits_le [of widthOf _ maxWidth, OF True] this]
    show ?thesis .
  next
    case False
    with Cons.prems
    have step: "breakChars widthOf maxWidth rest (lines @ [charLine]) [char] = (lines', charLine')"
      by simp
    have "list_all (line_fits widthOf maxWidth) (lines @ [charLine])"
      using Cons.prems(1,2) by simp
    from Cons.IH [OF this line_fits_single step] show ?thesis .
  qed
qed

lemma breakWords_fits:
  "list_all (line_fits widthOf maxWidth) lines \<Longrightarrow> line_fits widthOf maxWidth currentLine \<Longrightarrow>
   breakWords widthOf maxWidth words lines currentLine = (lines', currentLine') \<Longrightarrow>
   list_all (line_fits widthOf maxWidth) lines' \<and> line_fits widthOf maxWidth currentLine'"
proof (induction words arbitrary: lines currentLine)
  case Nil
  then show ?case by simp
next
  case (Cons word rest)
  define lineWithWord
    where "lineWithWord = (if length currentLine = 0 then word else currentLine @ [space] @ word)"
  define lines1
    where "lines1 = (if length currentLine > 0 then lines @ [currentLine] else lines)"
  have l1: "list_all (line_fits widthOf maxWidth) lines1"
    using Cons.prems(1,2) by (simp add: lines1_def)
  consider (fits) "widthOf lineWithWord \<le> maxWidth"
    | (alone) "\<not> widthOf lineWithWord \<le> maxWidth" "widthOf word \<le> maxWidth"
    | (chars) "\<not> widthOf lineWithWord \<le> maxWidth" "\<not> widthOf word \<le> maxWidth"
    by blast
  then show ?case
  proof cases
    case fits
    with Cons.prems(3)
    have "breakWords widthOf maxWidth rest lines lineWithWord = (lines', currentLine')"
      by (simp add: lineWithWord_def Let_def)
    from Cons.IH [OF Cons.prems(1) line_fits_le [of widthOf _ maxWidth, OF fits] this]
    show ?thesis .
  next
    case alone
    with Cons.prems(3)
    have "breakWords widthOf maxWidth rest lines1 word = (lines', currentLine')"
      by (simp add: lineWithWord_def lines1_def Let_def)
    from Cons.IH [OF l1 line_fits_le [of widthOf _ maxWidth, OF alone(2)] this]
    show ?thesis .
  next
    case chars
    obtain lines2 charLine
      where bc: "breakChars widthOf maxWidth word lines1 [] = (lines2, charLine)"
      by (cases "breakChars widthOf maxWidth word lines1 []") auto
    with chars Cons.prems(3)
    have step: "breakWords widthOf maxWidth rest lines2 charLine = (lines', currentLine')"
      by (simp add: lineWithWord_def lines1_def Let_def)
    from breakChars_fits [OF l1 line_fits_Nil bc]
    have "list_all (line_fits widthOf maxWidth) lines2" "line_fits widthOf maxWidth charLine"
      by simp_all
    from Cons.IH [OF this step] show ?thesis .
  qed
qed

lemma breakParagraphs_fits:
  "list_all (line_fits widthOf maxWidth) lines \<Longrightarrow>
   list_all (line_fits widthOf maxWidth) (breakParagraphs widthOf maxWidth paras lines)"
proof (induction paras arbitrary: lines)
  case Nil
  then show ?case by simp
next
  case (Cons para rest)
  show ?case
  proof (cases "para = [] \<or> widthOf para \<le> maxWidth")
    case True
    then have "line_fits widthOf maxWidth para"
      by (auto simp: line_fits_def)
    with Cons.prems have "list_all (line_fits widthOf maxWidth) (lines @ [para])"
      by simp
    from Cons.IH [OF this] True show ?thesis by simp
  next
    case False
    obtain lines1 currentLine where
      bw: "breakWords widthOf maxWidth (js_split space para) lines [] = (lines1, currentLine)"
      by (cases "breakWords widthOf maxWidth (js_split space para) lines []") auto
    from breakWords_fits [OF Cons.prems line_fits_Nil bw]
    have "list_all (line_fits widthOf maxWidth)
            (if length currentLine > 0 then lines1 @ [currentLine] else lines1)"
      by simp
    from Cons.IH [OF this] False bw show ?thesis by simp
  qed
qed

subsection \<open>No pushed line contains a character the paragraphs do not contain\<close>

lemma breakChars_avoids:
  "list_all (\<lambda>l. c \<notin> set l) lines \<Longrightarrow> c \<notin> set charLine \<Longrightarrow> c \<notin> set word \<Longrightarrow>
   breakChars widthOf maxWidth word lines charLine = (lines', charLine') \<Longrightarrow>
   list_all (\<lambda>l. c \<notin> set l) lines' \<and> c \<notin> set charLine'"
proof (induction word arbitrary: lines charLine)
  case Nil
  then show ?case by simp
next
  case (Cons char rest)
  show ?case
  proof (cases "widthOf (charLine @ [char]) \<le> maxWidth")
    case True
    with Cons.prems
    have "breakChars widthOf maxWidth rest lines (charLine @ [char]) = (lines', charLine')"
      by simp
    with Cons.IH [of lines "charLine @ [char]"] Cons.prems show ?thesis by simp
  next
    case False
    with Cons.prems
    have "breakChars widthOf maxWidth rest (lines @ [charLine]) [char] = (lines', charLine')"
      by simp
    with Cons.IH [of "lines @ [charLine]" "[char]"] Cons.prems show ?thesis by simp
  qed
qed

lemma breakWords_avoids:
  "list_all (\<lambda>l. c \<notin> set l) lines \<Longrightarrow> c \<notin> set currentLine \<Longrightarrow>
   list_all (\<lambda>l. c \<notin> set l) words \<Longrightarrow> c \<noteq> space \<Longrightarrow>
   breakWords widthOf maxWidth words lines currentLine = (lines', currentLine') \<Longrightarrow>
   list_all (\<lambda>l. c \<notin> set l) lines' \<and> c \<notin> set currentLine'"
proof (induction words arbitrary: lines currentLine)
  case Nil
  then show ?case by simp
next
  case (Cons word rest)
  define lineWithWord
    where "lineWithWord = (if length currentLine = 0 then word else currentLine @ [space] @ word)"
  define lines1
    where "lines1 = (if length currentLine > 0 then lines @ [currentLine] else lines)"
  have w: "c \<notin> set word" and r: "list_all (\<lambda>l. c \<notin> set l) rest"
    using Cons.prems(3) by simp_all
  have lw: "c \<notin> set lineWithWord"
    using Cons.prems(2,4) w by (simp add: lineWithWord_def)
  have l1: "list_all (\<lambda>l. c \<notin> set l) lines1"
    using Cons.prems(1,2) by (simp add: lines1_def)
  consider (fits) "widthOf lineWithWord \<le> maxWidth"
    | (alone) "\<not> widthOf lineWithWord \<le> maxWidth" "widthOf word \<le> maxWidth"
    | (chars) "\<not> widthOf lineWithWord \<le> maxWidth" "\<not> widthOf word \<le> maxWidth"
    by blast
  then show ?case
  proof cases
    case fits
    with Cons.prems(5)
    have "breakWords widthOf maxWidth rest lines lineWithWord = (lines', currentLine')"
      by (simp add: lineWithWord_def Let_def)
    from Cons.IH [OF Cons.prems(1) lw r Cons.prems(4) this] show ?thesis .
  next
    case alone
    with Cons.prems(5)
    have "breakWords widthOf maxWidth rest lines1 word = (lines', currentLine')"
      by (simp add: lineWithWord_def lines1_def Let_def)
    from Cons.IH [OF l1 w r Cons.prems(4) this] show ?thesis .
  next
    case chars
    obtain lines2 charLine
      where bc: "breakChars widthOf maxWidth word lines1 [] = (lines2, charLine)"
      by (cases "breakChars widthOf maxWidth word lines1 []") auto
    with chars Cons.prems(5)
    have step: "breakWords widthOf maxWidth rest lines2 charLine = (lines', currentLine')"
      by (simp add: lineWithWord_def lines1_def Let_def)
    from breakChars_avoids [OF l1 _ w bc]
    have "list_all (\<lambda>l. c \<notin> set l) lines2" "c \<notin> set charLine"
      by simp_all
    from Cons.IH [OF this r Cons.prems(4) step] show ?thesis .
  qed
qed

lemma breakParagraphs_avoids:
  "list_all (\<lambda>l. c \<notin> set l) lines \<Longrightarrow> list_all (\<lambda>l. c \<notin> set l) paras \<Longrightarrow> c \<noteq> space \<Longrightarrow>
   list_all (\<lambda>l. c \<notin> set l) (breakParagraphs widthOf maxWidth paras lines)"
proof (induction paras arbitrary: lines)
  case Nil
  then show ?case by simp
next
  case (Cons para rest)
  have p: "c \<notin> set para" and r: "list_all (\<lambda>l. c \<notin> set l) rest"
    using Cons.prems(2) by simp_all
  show ?case
  proof (cases "para = [] \<or> widthOf para \<le> maxWidth")
    case True
    have "list_all (\<lambda>l. c \<notin> set l) (lines @ [para])"
      using Cons.prems(1) p by simp
    from Cons.IH [OF this r Cons.prems(3)] True show ?thesis by simp
  next
    case False
    obtain lines1 currentLine where
      bw: "breakWords widthOf maxWidth (js_split space para) lines [] = (lines1, currentLine)"
      by (cases "breakWords widthOf maxWidth (js_split space para) lines []") auto
    have "list_all (\<lambda>l. c \<notin> set l) (js_split space para)"
      using js_split_subset [of para space] p by (auto simp: list_all_iff)
    from breakWords_avoids [OF Cons.prems(1) _ this Cons.prems(3) bw]
    have "list_all (\<lambda>l. c \<notin> set l)
            (if length currentLine > 0 then lines1 @ [currentLine] else lines1)"
      by simp
    from Cons.IH [OF this r Cons.prems(3)] False bw show ?thesis by simp
  qed
qed

text \<open>The lines the caller gets back from \<open>wrappedText.split(newline)\<close> are the lines that
  were pushed, or one empty line when none was.\<close>

lemma breakLongString_lines:
  "js_split newline (breakLongString text maxWidth font fontSize) =
     (if text = [] \<or> breakParagraphs (\<lambda>s. font s fontSize) maxWidth (js_split newline text) [] = []
      then [[]]
      else breakParagraphs (\<lambda>s. font s fontSize) maxWidth (js_split newline text) [])"
proof -
  have "list_all (\<lambda>l. newline \<notin> set l)
          (breakParagraphs (\<lambda>s. font s fontSize) maxWidth (js_split newline text) [])"
    by (rule breakParagraphs_avoids) (simp_all add: js_split_no_sep newline_not_space)
  then show ?thesis
    by (auto simp: breakLongString_def js_split_join)
qed

text \<open>
  C3 (amended). Every line of \<open>breakLongString\<close>, measured by the font, is at most
  \<open>maxWidth\<close> wide, or is a single character wider than \<open>maxWidth\<close>, or is the empty line.
  The empty line is produced for an empty paragraph and ahead of a first character that
  does not fit; its width exceeds \<open>maxWidth\<close> only when \<open>maxWidth\<close> is below the width of the
  empty string.
\<close>

theorem breakLongString_line_widths:
  "\<forall>line \<in> set (js_split newline (breakLongString text maxWidth font fontSize)).
     font line fontSize \<le> maxWidth
     \<or> (length line = 1 \<and> maxWidth < font line fontSize)
     \<or> line = []"
proof -
  have "list_all (line_fits (\<lambda>s. font s fontSize) maxWidth)
          (breakParagraphs (\<lambda>s. font s fontSize) maxWidth (js_split newline text) [])"
    by (rule breakParagraphs_fits) simp
  then have "list_all (line_fits (\<lambda>s. font s fontSize) maxWidth)
          (js_split newline (breakLongString text maxWidth font fontSize))"
    by (simp add: breakLongString_lines line_fits_Nil)
  then show ?thesis
    by (simp add: list_all_iff line_fits_def)
qed

theorem breakLongString_line_widths_witness:
  "js_split newline (breakLongString ''hello world foo'' 22 monospace 8)
     = [''hello'', ''world'', ''foo'']
   \<and> monospace ''hello'' 8 \<le> 22 \<and> monospace ''world'' 8 \<le> 22 \<and> monospace ''foo'' 8 \<le> 22"
proof -
  have lines: "js_split newline (breakLongString ''hello world foo'' 22 monospace 8)
                 = [''hello'', ''world'', ''foo'']"
    by code_simp
  from breakLongString_line_widths [of "''hello world foo''" 22 monospace 8]
  show ?thesis
    unfolding lines by (simp add: monospace_def)
qed

text \<open>C3 as stated fails for a negative width: the text \<open>a\<close> at width \<open>-1\<close> gives an empty
  first line, whose width 0 exceeds \<open>-1\<close> and which is not a single character.\<close>

theorem breakLongString_negative_width_counterexample:
  "js_split newline (breakLongString ''a'' (- 1) monospace 8) = ['''', ''a'']
   \<and> - 1 < monospace '''' 8 \<and> length '''' = (0::nat)"
  by (simp add: breakLongString_def monospace_def newline_def space_def)

text \<open>
  C7. A paragraph of spaces only that is wider than \<open>maxWidth\<close> produces no line at all,
  so the line break before it is lost: the three paragraphs \<open>a\<close>, two spaces and \<open>b\<close> come
  back as the two lines \<open>a\<close> and \<open>b\<close>.
\<close>

theorem breakLongString_drops_blank_paragraph:
  "js_split newline
     (breakLongString (''a'' @ [newline] @ ''  '' @ [newline] @ ''b'') 4 monospace 8)
   = [''a'', ''b'']"
  by code_simp

section \<open>Properties of the field renderer\<close>

subsection \<open>Page lookup\<close>

lemma js_at_beyond: "int (length xs) \<le> i \<Longrightarrow> js_at xs i = None"
  by (simp add: js_at_def Let_def)

lemma js_at_within:
  "0 \<le> i \<Longrightarrow> i < int (length xs) \<Longrightarrow> js_at xs i = Some (nat i, xs ! nat i)"
  by (simp add: js_at_def Let_def)

lemma js_at_negative:
  "i < 0 \<Longrightarrow> - int (length xs) \<le> i \<Longrightarrow>
   js_at xs i = Some (nat (int (length xs) + i), xs ! nat (int (length xs) + i))"
  by (simp add: js_at_def Let_def)

subsection \<open>Drawing never changes the pages\<close>

lemma getPages_addOp: "getPages (addOp op doc) = getPages doc"
  by (simp add: addOp_def)

lemma ops_addOp: "ops (addOp op doc) = ops doc @ [op]"
  by (simp add: addOp_def)

lemma getPages_drawLines:
  "getPages (drawLines doc pageIndex x bottom fontSize lineHeight lines currentY) = getPages doc"
  by (induction lines arbitrary: doc currentY) (simp_all add: getPages_addOp)

lemma getPages_drawWrappedText:
  "getPages (drawWrappedText env doc pageIndex pdfPage field) = getPages doc"
  by (simp add: drawWrappedText_def Let_def getPages_drawLines getPages_addOp)

lemma getPages_sealDocument_drawField:
  "getPages (sealDocument_drawField env doc field) = getPages doc"
  by (simp add: sealDocument_drawField_def getPages_drawWrappedText split: option.split)

lemma getPages_part_000_drawField:
  "getPages (part_000_drawField env doc field) = getPages doc"
  by (simp add: part_000_drawField_def getPages_drawWrappedText split: option.split)

lemma getPages_handler_drawField:
  "getPages (handler_drawField env doc field) = getPages doc"
  by (simp add: handler_drawField_def Let_def getPages_addOp split: option.split)

subsection \<open>Fields that are skipped\<close>

lemma sealDocument_drawField_page_beyond:
  "int (length (getPages doc)) < page field \<Longrightarrow> sealDocument_drawField env doc field = doc"
  by (simp add: sealDocument_drawField_def js_at_beyond)

lemma part_000_drawField_page_beyond:
  "int (length (getPages doc)) < page field \<Longrightarrow> part_000_drawField env doc field = doc"
  by (simp add: part_000_drawField_def js_at_beyond)

lemma handler_drawField_page_beyond:
  "int (length (getPages doc)) < page field \<Longrightarrow> handler_drawField env doc field = doc"
  by (simp add: handler_drawField_def js_at_beyond)

lemma part_000_drawField_not_inserted:
  "\<not> inserted field \<Longrightarrow> part_000_drawField env doc field = doc"
  by (simp add: part_000_drawField_def)

lemma handler_drawField_not_inserted:
  "\<not> inserted field \<Longrightarrow> handler_drawField env doc field = doc"
  by (simp add: handler_drawField_def)

text \<open>A skipped field leaves the rendering of the fields around it as it is.\<close>

lemma foldl_skip:
  assumes "\<And>doc. getPages doc = pages \<Longrightarrow> drawField doc field = doc"
    and "\<And>doc f. getPages (drawField doc f) = getPages doc"
    and "getPages doc = pages"
  shows "foldl drawField doc (before @ field # after) = foldl drawField doc (before @ after)"
proof -
  have pages: "getPages (foldl drawField doc fs) = getPages doc" for fs doc
    by (induction fs arbitrary: doc) (simp_all add: assms(2))
  have "drawField (foldl drawField doc before) field = foldl drawField doc before"
    by (rule assms(1)) (simp add: pages assms(3))
  then show ?thesis by simp
qed

lemma part_000_skips_unresolved_page:
  "int (length (getPages doc)) < page field \<Longrightarrow>
   foldl (part_000_drawField env) doc (before @ field # after)
     = foldl (part_000_drawField env) doc (before @ after)"
  by (rule foldl_skip [where pages = "getPages doc"])
     (simp_all add: part_000_drawField_page_beyond getPages_part_000_drawField)

lemma handler_skips_unresolved_page:
  "int (length (getPages doc)) < page field \<Longrightarrow>
   foldl (handler_drawField env) doc (before @ field # after)
     = foldl (handler_drawField env) doc (before @ after)"
  by (rule foldl_skip [where pages = "getPages doc"])
     (simp_all add: handler_drawField_page_beyond getPages_handler_drawField)

lemma sealDocument_skips_unresolved_page:
  "int (length (getPages doc)) < page field \<Longrightarrow>
   foldl (sealDocument_drawField env) doc (before @ field # after)
     = foldl (sealDocument_drawField env) doc (before @ after)"
  by (rule foldl_skip [where pages = "getPages doc"])
     (simp_all add: sealDocument_drawField_page_beyond getPages_sealDocument_drawField)

subsection \<open>The lines that are drawn\<close>

text \<open>The loop draws the first \<open>k\<close> lines, the line of index \<open>i\<close> at
  \<open>currentY - i * lineHeight\<close>; none of them is below \<open>bottom\<close>, and when lines are left
  over the next position would be.\<close>

lemma drawLines_ops:
  "\<exists>k\<le>length lines.
     ops (drawLines doc pageIndex x bottom fontSize lineHeight lines currentY)
       = ops doc @ map (\<lambda>i. DrawText pageIndex (lines ! i) x (currentY - real i * lineHeight) fontSize)
                     [0..<k]
     \<and> (\<forall>i<k. bottom \<le> currentY - real i * lineHeight)
     \<and> (k < length lines \<longrightarrow> currentY - real k * lineHeight < bottom)"
proof (induction lines arbitrary: doc currentY)
  case Nil
  then show ?case by simp
next
  case (Cons line rest)
  show ?case
  proof (cases "currentY < bottom")
    case True
    then show ?thesis by (intro exI [of _ 0]) simp
  next
    case False
    let ?doc = "addOp (DrawText pageIndex line x currentY fontSize) doc"
    from Cons.IH [of ?doc "currentY - lineHeight"]
    obtain k where k: "k \<le> length rest"
      and eq: "ops (drawLines ?doc pageIndex x bottom fontSize lineHeight rest (currentY - lineHeight))
         = ops ?doc @ map (\<lambda>i. DrawText pageIndex (rest ! i) x
                                 (currentY - lineHeight - real i * lineHeight) fontSize) [0..<k]"
      and above: "\<forall>i<k. bottom \<le> currentY - lineHeight - real i * lineHeight"
      and stop: "k < length rest \<longrightarrow> currentY - lineHeight - real k * lineHeight < bottom"
      by blast
    have shift: "currentY - lineHeight - real i * lineHeight = currentY - real (Suc i) * lineHeight" for i
      by (simp add: algebra_simps)
    have "ops (drawLines doc pageIndex x bottom fontSize lineHeight (line # rest) currentY)
            = ops doc @ map (\<lambda>i. DrawText pageIndex ((line # rest) ! i) x
                                   (currentY - real i * lineHeight) fontSize) [0..<Suc k]"
      using False eq by (simp add: ops_addOp map_upt_Suc shift del: upt_Suc)
    moreover have "\<forall>i<Suc k. bottom \<le> currentY - real i * lineHeight"
    proof (intro allI impI)
      fix i assume "i < Suc k"
      show "bottom \<le> currentY - real i * lineHeight"
      proof (cases i)
        case 0
        with False show ?thesis by simp
      next
        case (Suc j)
        with \<open>i < Suc k\<close> above shift [of j] show ?thesis by auto
      qed
    qed
    moreover have "Suc k < length (line # rest) \<longrightarrow> currentY - real (Suc k) * lineHeight < bottom"
      using stop shift [of k] by auto
    ultimately show ?thesis
      using k by (intro exI [of _ "Suc k"]) simp
  qed
qed

text \<open>Where \<open>sealDocument\<close> and the second handler draw the text of a field: the text is
  wrapped once, at font size 8, to the width of the field less two paddings of 4, and the
  lines go top-down from \<open>invertedY + fieldHeight - padding - fontSize\<close> in steps of
  \<open>fontSize * 1.2\<close> while they are not below \<open>invertedY + padding\<close>.\<close>

lemma drawWrappedText_ops:
  assumes "customText field \<noteq> []"
  shows
    "(let fieldWidth = getWidth pdfPage * (width field / 100);
          fieldHeight = getHeight pdfPage * (height field / 100);
          fieldX = getWidth pdfPage * (positionX field / 100);
          fieldY = getHeight pdfPage * (positionY field / 100);
          invertedY = getHeight pdfPage - fieldY - fieldHeight;
          lines = js_split newline
                    (breakLongString (customText field) (fieldWidth - 2 * 4)
                       (widthOfTextAtSize env) 8)
      in \<exists>k\<le>length lines.
           ops (drawWrappedText env doc pageIndex pdfPage field)
             = ops doc @ EmbedFont #
                 map (\<lambda>i. DrawText pageIndex (lines ! i) (fieldX + 4)
                             (invertedY + fieldHeight - 4 - 8 - real i * (8 * 1.2)) 8) [0..<k]
           \<and> (\<forall>i<k. invertedY + 4 \<le> invertedY + fieldHeight - 4 - 8 - real i * (8 * 1.2))
           \<and> (k < length lines \<longrightarrow>
                invertedY + fieldHeight - 4 - 8 - real k * (8 * 1.2) < invertedY + 4))"
proof -
  define fieldWidth where "fieldWidth = getWidth pdfPage * (width field / 100)"
  define fieldHeight where "fieldHeight = getHeight pdfPage * (height field / 100)"
  define fieldX where "fieldX = getWidth pdfPage * (positionX field / 100)"
  define fieldY where "fieldY = getHeight pdfPage * (positionY field / 100)"
  define invertedY where "invertedY = getHeight pdfPage - fieldY - fieldHeight"
  define lines where "lines = js_split newline
      (breakLongString (customText field) (fieldWidth - 2 * 4) (widthOfTextAtSize env) 8)"
  have run: "drawWrappedText env doc pageIndex pdfPage field
      = drawLines (addOp EmbedFont doc) pageIndex (fieldX + 4) (invertedY + 4) 8 (8 * 1.2) lines
          (invertedY + fieldHeight - 4 - 8)"
    using assms
    by (simp add: drawWrappedText_def Let_def fieldWidth_def fieldHeight_def fieldX_def
        fieldY_def invertedY_def lines_def)
  from drawLines_ops [of lines "addOp EmbedFont doc" pageIndex "fieldX + 4" "invertedY + 4" 8
      "8 * 1.2" "invertedY + fieldHeight - 4 - 8"]
  have "\<exists>k\<le>length lines.
           ops (drawWrappedText env doc pageIndex pdfPage field)
             = ops doc @ EmbedFont #
                 map (\<lambda>i. DrawText pageIndex (lines ! i) (fieldX + 4)
                             (invertedY + fieldHeight - 4 - 8 - real i * (8 * 1.2)) 8) [0..<k]
           \<and> (\<forall>i<k. invertedY + 4 \<le> invertedY + fieldHeight - 4 - 8 - real i * (8 * 1.2))
           \<and> (k < length lines \<longrightarrow>
                invertedY + fieldHeight - 4 - 8 - real k * (8 * 1.2) < invertedY + 4)"
    unfolding run by (simp add: ops_addOp)
  then show ?thesis
    unfolding Let_def fieldWidth_def fieldHeight_def fieldX_def fieldY_def invertedY_def lines_def .
qed

text \<open>The job handler draws the text of a field in one piece, whatever its width.\<close>

lemma handler_drawField_ops:
  assumes "inserted field" and "customText field \<noteq> []"
    and "js_at (getPages doc) (page field - 1) = Some (pageIndex, pdfPage)"
  shows "ops (handler_drawField env doc field)
           = ops doc @
             [EmbedFont,
              DrawText pageIndex (customText field)
                (getWidth pdfPage * (positionX field / 100) + 2)
                (getHeight pdfPage - getHeight pdfPage * (positionY field / 100)
                   - getHeight pdfPage * (height field / 100)
                   + getHeight pdfPage * (height field / 100) / 2 - 8 / 2) 8]"
  using assms by (simp add: handler_drawField_def Let_def ops_addOp)

text \<open>
  C5. \<open>sealDocument\<close> has no test of \<open>field.inserted\<close> in its loop over the non-signature
  fields (both handlers have one): a text field that is not inserted and has a custom text
  is drawn by \<open>sealDocument\<close> and skipped by the handlers.
\<close>

theorem sealDocument_draws_uninserted_field:
  "ops (sealDocument_drawField env0 pdf0 (textField0 False 1 ''x''))
     = [EmbedFont, DrawText 0 ''x'' 64 708 8]
   \<and> part_000_drawField env0 pdf0 (textField0 False 1 ''x'') = pdf0
   \<and> handler_drawField env0 pdf0 (textField0 False 1 ''x'') = pdf0"
  by code_simp

text \<open>A page number that is zero or negative is not skipped either: \<open>pages.at(field.page
  - 1)\<close> counts a negative index from the end, so page 0 is the last page.\<close>

lemma drawField_page_zero_is_last_page:
  "ops (sealDocument_drawField env0 pdf0 (textField0 True 0 ''x''))
     = [EmbedFont, DrawText 0 ''x'' 64 708 8]
   \<and> ops (part_000_drawField env0 pdf0 (textField0 True 0 ''x''))
     = [EmbedFont, DrawText 0 ''x'' 64 708 8]
   \<and> ops (handler_drawField env0 pdf0 (textField0 True 0 ''x''))
     = [EmbedFont, DrawText 0 ''x'' 62 696 8]"
  by code_simp

text \<open>
  C6. The job handler of seal-document.handler.ts never calls the wrapping function: a
  text of three words in a field 30 units wide is drawn as one line, at \<open>fieldX + 2\<close> and
  centred vertically, where \<open>sealDocument\<close> and the second handler draw three lines.
\<close>

theorem handler_draws_field_text_unwrapped:
  "ops (handler_drawField env0 pdf0 (textField0 True 1 ''hello world foo''))
     = [EmbedFont, DrawText 0 ''hello world foo'' 62 696 8]
   \<and> ops (part_000_drawField env0 pdf0 (textField0 True 1 ''hello world foo''))
     = [EmbedFont, DrawText 0 ''hello'' 64 708 8, DrawText 0 ''world'' 64 698.4 8,
        DrawText 0 ''foo'' 64 688.8 8]
   \<and> ops (sealDocument_drawField env0 pdf0 (textField0 True 1 ''hello world foo''))
     = [EmbedFont, DrawText 0 ''hello'' 64 708 8, DrawText 0 ''world'' 64 698.4 8,
        DrawText 0 ''foo'' 64 688.8 8]"
  by code_simp

section \<open>Properties of the orchestration\<close>

subsection \<open>Steps\<close>

lemma andThen_Inl [simp]: "andThen (Inl e, w) f = (Inl e, w)"
  by (simp add: andThen_def)

lemma andThen_Inr [simp]: "andThen (Inr x, w) f = f x w"
  by (simp add: andThen_def)


lemma find_SomeD: "find P xs = Some x \<Longrightarrow> P x \<and> x \<in> set xs"
  by (auto simp: find_Some_iff)

lemma find_map_update:
  "find (\<lambda>d. key d = k) xs = Some x \<Longrightarrow> (\<And>d. key (f d) = key d) \<Longrightarrow>
   find (\<lambda>d. key d = k) (map (\<lambda>d. if key d = k' then f d else d) xs)
     = Some (if key x = k' then f x else x)"
  by (induction xs) (auto split: if_splits)




subsection \<open>What each part of a run leaves behind\<close>




lemma capture_db:
  "db_document (capture env rowId isRejected w) = db_document w"
  "db_documentData (capture env rowId isRejected w) = db_documentData w"
  "db_documentAuditLog (capture env rowId isRejected w) = db_documentAuditLog w"
  "db_recipient (capture env rowId isRejected w) = db_recipient w"
  "db_field (capture env rowId isRejected w) = db_field w"
  "tasks (capture env rowId isRejected w) = tasks w"
  "nanoidCalls (capture env rowId isRejected w)
     = nanoidCalls w + (if PostHogServerClient env then 1 else 0)"
  by (simp_all add: capture_def emit_def generateId_def)


lemma rollback_db:
  "db_document (rollback w tx) = db_document w"
  "db_documentData (rollback w tx) = db_documentData w"
  "db_documentAuditLog (rollback w tx) = db_documentAuditLog w"
  "db_recipient (rollback w tx) = db_recipient w"
  "db_field (rollback w tx) = db_field w"
  "tasks (rollback w tx) = tasks tx"
  "effects (rollback w tx) = effects tx"
  "nanoidCalls (rollback w tx) = nanoidCalls tx"
  by (simp_all add: rollback_def)




subsection \<open>Atomic persistence\<close>



lemma untouched_capture: "untouched w (capture env rowId isRejected w') = untouched w w'"
  by (simp add: untouched_def capture_db)



lemma untouched_new_row:
  "untouched w w' \<Longrightarrow> db_documentData w' = db_documentData w \<Longrightarrow>
   untouched w (w'\<lparr>db_documentData := db_documentData w' @ [row]\<rparr>)"
  by (simp add: untouched_def)



lemma runTask_cached:
  "cached (tasks w) = Some v \<Longrightarrow> runTask cached store fn w = (Inr v, w)"
  by (simp add: runTask_def)
















subsection \<open>How a run ends\<close>






lemma sealed_persisted:
  "sealed drawField insertField env options w w' \<Longrightarrow> persisted env (opt_documentId options) w w'"
  by (auto simp: sealed_def Let_def split: option.splits)

















subsection \<open>The cached document status is never read\<close>

lemma forgetStatus_idem [simp]: "forgetStatus (forgetStatus w) = forgetStatus w"
  by (simp add: forgetStatus_def)

lemma forgetStatus_db [simp]:
  "db_document (forgetStatus w) = db_document w"
  "db_recipient (forgetStatus w) = db_recipient w"
  "db_field (forgetStatus w) = db_field w"
  "db_documentData (forgetStatus w) = db_documentData w"
  "db_documentAuditLog (forgetStatus w) = db_documentAuditLog w"
  "effects (forgetStatus w) = effects w"
  "get_document_data_id (tasks (forgetStatus w)) = get_document_data_id (tasks w)"
  "decorate_and_sign_pdf (tasks (forgetStatus w)) = decorate_and_sign_pdf (tasks w)"
  "update_document (tasks (forgetStatus w)) = update_document (tasks w)"
  "send_completed_email (tasks (forgetStatus w)) = send_completed_email (tasks w)"
  by (simp_all add: forgetStatus_def)

lemma insensitiveI:
  "(\<And>w. apsnd forgetStatus (f w) = apsnd forgetStatus (f (forgetStatus w))) \<Longrightarrow> insensitive f"
  by (simp add: insensitive_def)

lemma insensitiveD:
  "insensitive f \<Longrightarrow> apsnd forgetStatus (f w) = apsnd forgetStatus (f (forgetStatus w))"
  by (simp add: insensitive_def)

lemma insensitive_andThen:
  assumes f: "insensitive f" and g: "\<And>x. insensitive (g x)"
  shows "insensitive (\<lambda>w. andThen (f w) g)"
proof (rule insensitiveI)
  fix w
  obtain r w1 where 1: "f w = (r, w1)" by (cases "f w") auto
  obtain r' w1' where 2: "f (forgetStatus w) = (r', w1')" by (cases "f (forgetStatus w)") auto
  from insensitiveD [OF f, of w] 1 2 have r: "r' = r" and w: "forgetStatus w1' = forgetStatus w1"
    by simp_all
  show "apsnd forgetStatus (andThen (f w) g) = apsnd forgetStatus (andThen (f (forgetStatus w)) g)"
  proof (cases r)
    case (Inl e)
    then show ?thesis by (simp add: 1 2 r w)
  next
    case (Inr x)
    have "apsnd forgetStatus (g x w1) = apsnd forgetStatus (g x (forgetStatus w1))"
      by (rule insensitiveD [OF g])
    also have "\<dots> = apsnd forgetStatus (g x (forgetStatus w1'))"
      by (simp add: w)
    also have "\<dots> = apsnd forgetStatus (g x w1')"
      by (rule insensitiveD [OF g, symmetric])
    finally show ?thesis by (simp add: 1 2 r Inr)
  qed
qed

text \<open>The task 'get-document-status' itself: whatever it returns, the rest of the run
  does not take it.\<close>

lemma insensitive_status_task:
  assumes g: "insensitive g"
  shows "insensitive (\<lambda>w. andThen (runTask get_document_status (\<lambda>v c. c\<lparr>get_document_status := v\<rparr>)
                                     (\<lambda>w. (Inr x, w)) w) (\<lambda>documentStatus. g))"
proof (rule insensitiveI)
  fix w
  have step: "\<exists>v w1. runTask get_document_status (\<lambda>v c. c\<lparr>get_document_status := v\<rparr>)
                        (\<lambda>w. (Inr x, w)) w = (Inr v, w1) \<and> forgetStatus w1 = forgetStatus w" for w
    by (cases "get_document_status (tasks w)") (simp_all add: runTask_def forgetStatus_def)
  from step [of w] obtain v w1 where 1: "runTask get_document_status
      (\<lambda>v c. c\<lparr>get_document_status := v\<rparr>) (\<lambda>w. (Inr x, w)) w = (Inr v, w1)"
    and w1: "forgetStatus w1 = forgetStatus w" by blast
  from step [of "forgetStatus w"] obtain v' w1' where 2: "runTask get_document_status
      (\<lambda>v c. c\<lparr>get_document_status := v\<rparr>) (\<lambda>w. (Inr x, w)) (forgetStatus w) = (Inr v', w1')"
    and w1': "forgetStatus w1' = forgetStatus w" by auto
  have "apsnd forgetStatus (g w1) = apsnd forgetStatus (g (forgetStatus w1))"
    by (rule insensitiveD [OF g])
  also have "\<dots> = apsnd forgetStatus (g (forgetStatus w1'))"
    by (simp add: w1 w1')
  also have "\<dots> = apsnd forgetStatus (g w1')"
    by (rule insensitiveD [OF g, symmetric])
  finally show "apsnd forgetStatus
          (andThen (runTask get_document_status (\<lambda>v c. c\<lparr>get_document_status := v\<rparr>)
                      (\<lambda>w. (Inr x, w)) w) (\<lambda>documentStatus. g))
        = apsnd forgetStatus
          (andThen (runTask get_document_status (\<lambda>v c. c\<lparr>get_document_status := v\<rparr>)
                      (\<lambda>w. (Inr x, w)) (forgetStatus w)) (\<lambda>documentStatus. g))"
    by (simp add: 1 2)
qed

text \<open>The other tasks read and write their own slots.\<close>

lemma insensitive_runTask:
  assumes fn: "insensitive fn"
    and cached: "\<And>w. cached (tasks (forgetStatus w)) = cached (tasks w)"
    and store: "\<And>v w. forgetStatus (w\<lparr>tasks := store v (tasks w)\<rparr>)
                  = (forgetStatus w)\<lparr>tasks := store v (tasks (forgetStatus w))\<rparr>"
  shows "insensitive (runTask cached store fn)"
proof (rule insensitiveI)
  fix w
  show "apsnd forgetStatus (runTask cached store fn w)
          = apsnd forgetStatus (runTask cached store fn (forgetStatus w))"
  proof (cases "cached (tasks w)")
    case (Some v)
    then show ?thesis by (simp add: runTask_def cached)
  next
    case None
    obtain r w1 where 1: "fn w = (r, w1)" by (cases "fn w") auto
    obtain r' w1' where 2: "fn (forgetStatus w) = (r', w1')" by (cases "fn (forgetStatus w)") auto
    from insensitiveD [OF fn, of w] 1 2 have r: "r' = r" and w: "forgetStatus w1' = forgetStatus w1"
      by simp_all
    show ?thesis
    proof (cases r)
      case (Inl e)
      then show ?thesis by (simp add: runTask_def cached None 1 2 r w)
    next
      case (Inr v)
      have "forgetStatus (w1\<lparr>tasks := store (Some v) (tasks w1)\<rparr>)
              = (forgetStatus w1)\<lparr>tasks := store (Some v) (tasks (forgetStatus w1))\<rparr>"
        by (rule store)
      also have "\<dots> = (forgetStatus w1')\<lparr>tasks := store (Some v) (tasks (forgetStatus w1'))\<rparr>"
        by (simp add: w)
      also have "\<dots> = forgetStatus (w1'\<lparr>tasks := store (Some v) (tasks w1')\<rparr>)"
        by (rule store [symmetric])
      finally show ?thesis by (simp add: runTask_def cached None 1 2 r Inr)
    qed
  qed
qed

lemma insensitive_return: "insensitive (\<lambda>w. (r, w))"
  by (simp add: insensitive_def)

lemma insensitive_run_load: "insensitive (run_load documentId)"
  by (rule insensitiveI)
     (simp add: run_load_def findFirstOrThrow_def Let_def documentRecipients_def
       split: option.split)

lemma insensitive_run_prepare: "insensitive (run_prepare env isResealing document documentDataId')"
  by (rule insensitiveI)
     (auto simp: run_prepare_def Let_def nonCCRecipients_def documentFields_def document_update_def
       forgetStatus_def split: option.split)

lemma insensitive_getFile: "insensitive (getFile env documentData)"
  by (rule insensitiveI) (simp add: getFile_def emit_def forgetStatus_def split: option.split)

lemma insensitive_decorateAndSign:
  "insensitive (decorateAndSign drawField insertField env ctx certificateData pdfData)"
  by (rule insensitiveI)
     (simp add: decorateAndSign_def loadPdf_def sign_def putPdfFile_def Let_def emit_def
       forgetStatus_def split: option.split sum.split)

lemma insensitive_run_transaction: "insensitive (run_transaction env ctx newDataId)"
  by (rule insensitiveI)
     (simp add: run_transaction_def run_writes_def transaction_def findFirstOrThrow_def document_update_def
       documentData_update_def documentAuditLog_create_def generateId_def rollback_def
       forgetStatus_def split: option.split)

lemma insensitive_after_capture:
  assumes "insensitive f"
  shows "insensitive (\<lambda>w. f (capture env rowId isRejected w))"
proof (rule insensitiveI)
  fix w
  have swap: "forgetStatus (capture env rowId isRejected (forgetStatus w))
      = forgetStatus (capture env rowId isRejected w)"
    by (simp add: capture_def emit_def generateId_def forgetStatus_def)
  have "apsnd forgetStatus (f (capture env rowId isRejected w))
      = apsnd forgetStatus (f (forgetStatus (capture env rowId isRejected w)))"
    by (rule insensitiveD [OF assms])
  also have "\<dots> = apsnd forgetStatus (f (forgetStatus (capture env rowId isRejected (forgetStatus w))))"
    by (simp only: swap)
  also have "\<dots> = apsnd forgetStatus (f (capture env rowId isRejected (forgetStatus w)))"
    by (rule insensitiveD [OF assms, symmetric])
  finally show "apsnd forgetStatus (f (capture env rowId isRejected w))
      = apsnd forgetStatus (f (capture env rowId isRejected (forgetStatus w)))" .
qed

lemma insensitive_run_sendCompletedEmail:
  "insensitive (run_sendCompletedEmail env documentId sendEmail isResealing ctx)"
  by (rule insensitiveI)
     (simp add: run_sendCompletedEmail_def sendCompletedEmailStep_def emit_def forgetStatus_def)

lemma insensitive_reloadAndTriggerWebhook: "insensitive (reloadAndTriggerWebhook env ctx)"
  by (rule insensitiveI)
     (simp add: reloadAndTriggerWebhook_def findFirstOrThrow_def triggerWebhookStep_def emit_def
       forgetStatus_def split: option.split)

lemma run_generic_insensitive: "insensitive (run_generic drawField env payload)"
  unfolding run_generic_def Let_def
  apply (rule insensitive_andThen)
   apply (rule insensitive_run_load)
  apply (rule insensitive_status_task)
  apply (rule insensitive_andThen)
   apply (rule insensitive_runTask)
     apply (rule insensitive_return)
    apply simp
   apply (simp add: forgetStatus_def)
  apply (rule insensitive_andThen)
   apply (rule insensitive_run_prepare)
  apply (rule insensitive_andThen)
   apply (rule insensitive_getFile)
  apply (rule insensitive_andThen)
   apply (rule insensitive_runTask)
     apply (rule insensitive_andThen)
      apply (rule insensitive_decorateAndSign)
     apply (rule insensitive_return)
    apply simp
   apply (simp add: forgetStatus_def)
  apply (rule insensitive_andThen)
   apply (rule insensitive_after_capture)
   apply (rule insensitive_runTask)
     apply (rule insensitive_run_transaction)
    apply simp
   apply (simp add: forgetStatus_def)
  apply (rule insensitive_andThen)
   apply (rule insensitive_runTask)
     apply (rule insensitive_run_sendCompletedEmail)
    apply simp
   apply (simp add: forgetStatus_def)
  apply (rule insensitive_reloadAndTriggerWebhook)
  done

theorem run_ignores_cached_document_status:
  "apsnd forgetStatus (run env payload (w\<lparr>tasks := (tasks w)\<lparr>get_document_status := a\<rparr>\<rparr>))
     = apsnd forgetStatus (run env payload (w\<lparr>tasks := (tasks w)\<lparr>get_document_status := b\<rparr>\<rparr>))
   \<and> apsnd forgetStatus (run_part_000 env payload (w\<lparr>tasks := (tasks w)\<lparr>get_document_status := a\<rparr>\<rparr>))
     = apsnd forgetStatus (run_part_000 env payload (w\<lparr>tasks := (tasks w)\<lparr>get_document_status := b\<rparr>\<rparr>))"
proof -
  have same: "forgetStatus (w\<lparr>tasks := (tasks w)\<lparr>get_document_status := a\<rparr>\<rparr>)
      = forgetStatus (w\<lparr>tasks := (tasks w)\<lparr>get_document_status := b\<rparr>\<rparr>)"
    by (simp add: forgetStatus_def)
  have "apsnd forgetStatus (run_generic drawField env payload (w\<lparr>tasks := (tasks w)\<lparr>get_document_status := a\<rparr>\<rparr>))
      = apsnd forgetStatus (run_generic drawField env payload (w\<lparr>tasks := (tasks w)\<lparr>get_document_status := b\<rparr>\<rparr>))"
    for drawField
    using insensitiveD [OF run_generic_insensitive, of drawField env payload
        "w\<lparr>tasks := (tasks w)\<lparr>get_document_status := a\<rparr>\<rparr>"]
      insensitiveD [OF run_generic_insensitive, of drawField env payload
        "w\<lparr>tasks := (tasks w)\<lparr>get_document_status := b\<rparr>\<rparr>"]
    by (simp only: same)
  then show ?thesis
    by (simp add: run_def run_part_000_def)
qed

subsection \<open>The seal is written in one piece\<close>

text \<open>The callback of the transaction makes its writes one after the other: when the
  database refuses the audit entry, the callback has already set the status of the
  document. It is the rollback of \<open>transaction\<close> that undoes it.\<close>

lemma writes_are_rolled_back:
  "fst (sealDocument_writes envAuditLogDown
          (sealContext 1 False signedWorld document0 documentData0) ''new'' signedWorld)
     = Inl (CollaboratorError Database)
   \<and> map status (db_document (snd (sealDocument_writes envAuditLogDown
          (sealContext 1 False signedWorld document0 documentData0) ''new'' signedWorld)))
     = [DocumentStatus_COMPLETED]
   \<and> fst (sealDocument_transaction envAuditLogDown
          (sealContext 1 False signedWorld document0 documentData0) ''new'' signedWorld)
     = Inl (CollaboratorError Database)
   \<and> map status (db_document (snd (sealDocument_transaction envAuditLogDown
          (sealContext 1 False signedWorld document0 documentData0) ''new'' signedWorld)))
     = [DocumentStatus_PENDING]
   \<and> map data (db_documentData (snd (sealDocument_transaction envAuditLogDown
          (sealContext 1 False signedWorld document0 documentData0) ''new'' signedWorld)))
     = [''current'']"
  by code_simp

text \<open>The transaction id of a persisted seal is new: a generator that never returns an id
  twice has not returned it before the run.\<close>

lemma persisted_transaction_id_fresh:
  assumes "persisted env rowId w w'" and "inj (nanoid env)" and "n < nanoidCalls w"
  shows "data_transactionId (last (db_documentAuditLog w')) \<noteq> nanoid env n"
proof -
  from assms(1) have later: "nanoidCalls w < nanoidCalls w'"
    and id: "data_transactionId (last (db_documentAuditLog w')) = nanoid env (nanoidCalls w' - 1)"
    by (auto simp: persisted_def Let_def completedAuditLog_def split: option.splits)
  from later assms(3) have "nanoidCalls w' - 1 \<noteq> n"
    by simp
  with assms(2) show ?thesis
    unfolding id by (auto dest: injD)
qed

text \<open>Two seals in a row carry different transaction ids.\<close>

lemma consecutive_seals_transaction_ids:
  "map data_transactionId
     (db_documentAuditLog
        (snd (sealDocument env0 (options0 None (Some True))
                (snd (sealDocument env0 (options0 None None) signedWorld)))))
     = [''tx'', ''tx+'']"
  by code_simp




text \<open>A job that failed in the completion email is run again with its tasks
  'get-document-data-id', 'decorate-and-sign-pdf' and 'update-document' checkpointed: it
  does not write again, sends the email and returns.\<close>

lemma run_again_after_mailer_failure:
  "fst (run env0 (options0 None None)
          (snd (run envMailerDown (options0 None None) signedWorld))) = Inr ()
   \<and> db_document (snd (run env0 (options0 None None)
          (snd (run envMailerDown (options0 None None) signedWorld))))
     = db_document (snd (run envMailerDown (options0 None None) signedWorld))
   \<and> length (db_documentAuditLog (snd (run env0 (options0 None None)
          (snd (run envMailerDown (options0 None None) signedWorld))))) = 1
   \<and> length (db_documentData (snd (run env0 (options0 None None)
          (snd (run envMailerDown (options0 None None) signedWorld))))) = 2
   \<and> SendCompletedEmail 1 \<in> set (effects (snd (run env0 (options0 None None)
          (snd (run envMailerDown (options0 None None) signedWorld)))))"
  by code_simp
subsection \<open>The completion check\<close>

text \<open>In \<open>sealDocument\<close> the check is made on the recipients that are not CC: without a
  rejection among them, one of them that has not signed stops the run before anything is
  read or written.\<close>

lemma sealDocument_unsigned_recipients:
  assumes "find (\<lambda>d. document_id d = opt_documentId options) (db_document w) = Some document"
    and "find (\<lambda>d. documentData_id d = documentDataId document) (db_documentData w) = Some documentData"
    and "findRejectedRecipient (nonCCRecipients (opt_documentId options) w) = None"
    and "list_ex (\<lambda>recipient. signingStatus recipient \<noteq> SigningStatus_SIGNED)
           (nonCCRecipients (opt_documentId options) w)"
  shows "sealDocument env options w = (Inl (HasUnsignedRecipients (opt_documentId options)), w)"
proof -
  have "document_id document = opt_documentId options"
    using find_SomeD [OF assms(1)] by simp
  with assms show ?thesis
    by (simp add: sealDocument_def sealDocument_load_def findFirstOrThrow_def Let_def)
qed

text \<open>Recipients with the role CC are filtered out before the check.\<close>

lemma nonCCRecipients_ignores_cc:
  "role recipient = RecipientRole_CC \<Longrightarrow>
   nonCCRecipients rowId (w\<lparr>db_recipient := before @ recipient # after\<rparr>)
     = nonCCRecipients rowId (w\<lparr>db_recipient := before @ after\<rparr>)"
  by (simp add: nonCCRecipients_def)

text \<open>
  C1. The job handlers compute \<open>isComplete\<close> over \<open>document.recipients\<close>, the CC recipients
  included. With two signers who signed and a CC recipient still pending, \<open>run\<close> fails with
  'Document is not complete' where \<open>sealDocument\<close> completes the document.
\<close>

theorem run_blocked_by_pending_cc:
  "run env0 (options0 None None) ccPendingWorld = (Inl DocumentIsNotComplete, ccPendingWorld)
   \<and> run_part_000 env0 (options0 None None) ccPendingWorld
       = (Inl DocumentIsNotComplete, ccPendingWorld)
   \<and> fst (sealDocument env0 (options0 None None) ccPendingWorld) = Inr ()
   \<and> map status (db_document (snd (sealDocument env0 (options0 None None) ccPendingWorld)))
       = [DocumentStatus_COMPLETED]"
  by code_simp

text \<open>The same defect the other way round: a rejection recorded on a CC recipient
  satisfies \<open>isComplete\<close>, the handlers have no further check of the recipients, and a
  document whose only signer has not signed is sealed as completed. \<open>sealDocument\<close> refuses
  it.\<close>

lemma run_sealed_by_cc_rejection:
  "fst (run env0 (options0 None None) ccRejectedWorld) = Inr ()
   \<and> map status (db_document (snd (run env0 (options0 None None) ccRejectedWorld)))
       = [DocumentStatus_COMPLETED]
   \<and> sealDocument env0 (options0 None None) ccRejectedWorld
       = (Inl (HasUnsignedRecipients 1), ccRejectedWorld)"
  by code_simp

subsection \<open>The completion email\<close>

text \<open>The decision of the handlers is the one of the specification.\<close>

lemma run_shouldSendCompletedEmail_iff:
  "run_shouldSendCompletedEmail env sendEmail isResealing isRejected documentStatus
     = (if isResealing then sendEmail \<and> \<not> isDocumentCompleted env documentStatus
        else sendEmail \<and> \<not> isRejected)"
  by (auto simp: run_shouldSendCompletedEmail_def Let_def)

text \<open>
  C4. \<open>sealDocument\<close> sends the completion email whenever \<open>sendEmail && !isResealing\<close>: it
  sends it for a rejected document, which the handlers do not, and it never sends it on a
  reseal, where the handlers send it for a document that was not completed before.
\<close>

theorem sealDocument_emails_rejected_document:
  "SendCompletedEmail 1 \<in> set (effects (snd (sealDocument env0 (options0 None None) rejectedWorld)))
   \<and> SendCompletedEmail 1 \<notin> set (effects (snd (run env0 (options0 None None) rejectedWorld)))
   \<and> SendCompletedEmail 1
       \<notin> set (effects (snd (sealDocument env0 (options0 None (Some True)) signedWorld)))
   \<and> SendCompletedEmail 1
       \<in> set (effects (snd (run env0 (options0 None (Some True)) signedWorld)))"
  by code_simp

section \<open>Rejection and resealing\<close>

subsection \<open>Rejection\<close>












subsection \<open>Resealing\<close>
































text \<open>What the condition on the cache excludes is a model of the job runner that hands
  the handler an id the task never returned: with the id of the sealed copy cached the
  handler would read that copy. The handler itself caches \<open>document.documentDataId\<close>.\<close>

lemma run_caches_documentDataId:
  "get_document_data_id (tasks (snd (run env0 (options0 None None) signedWorld)))
     = Some (documentDataId document0)
   \<and> map documentDataId (db_document (snd (run env0 (options0 None None) signedWorld)))
     = [documentDataId document0]"
  by code_simp
end
